theory Spec2Isabelle
  imports Complex_Main "HOL-Library.Log_Nat"
begin

section \<open>JavaScript values used by the library\<close>

text \<open>
  A JavaScript \<open>number\<close> restricted to what this library computes from integer inputs:
  a finite integer, the two infinities that a division by zero yields, and \<open>NaN\<close>
  (the result of \<open>parseInt\<close> on a text without digits, and of \<open>0 / 0\<close>). An integer
  given to the library is a double that holds it; the quotient of two of them is rounded
  to a double, as modelled below.
\<close>

datatype number = Finite int | PosInfinity | NegInfinity | NaN

text \<open>
  A property value of an object typed \<open>unknown\<close>: the primitive values. A property that
  is read but missing is \<open>undefined\<close>.
\<close>

datatype jsvalue = JUndefined | JNull | JBoolean bool | JNumber number | JString string

text \<open>The relational operator \<open>a < b\<close> on numbers: every comparison with \<open>NaN\<close> is false.\<close>

fun num_less :: "number \<Rightarrow> number \<Rightarrow> bool" where
  "num_less NaN _ = False"
| "num_less _ NaN = False"
| "num_less (Finite a) (Finite b) = (a < b)"
| "num_less (Finite _) PosInfinity = True"
| "num_less (Finite _) NegInfinity = False"
| "num_less PosInfinity _ = False"
| "num_less NegInfinity NegInfinity = False"
| "num_less NegInfinity _ = True"

text \<open>The relational operator \<open>a <= b\<close> on numbers, false as well when an operand is \<open>NaN\<close>.\<close>

fun num_le :: "number \<Rightarrow> number \<Rightarrow> bool" where
  "num_le NaN _ = False"
| "num_le _ NaN = False"
| "num_le (Finite a) (Finite b) = (a \<le> b)"
| "num_le (Finite _) PosInfinity = True"
| "num_le (Finite _) NegInfinity = False"
| "num_le PosInfinity PosInfinity = True"
| "num_le PosInfinity _ = False"
| "num_le NegInfinity _ = True"

text \<open>
  The division \<open>a / b\<close> of two numbers that hold integers, \<open>b\<close> not zero. The exact
  quotient is a rational; the result is the double nearest to it, a tie going to the even
  significand. A double has a significand of 53 bits: with \<open>e\<close> the binary exponent of
  the quotient (\<open>2^e <= |a / b| < 2^(e + 1)\<close>), the doubles around it are the multiples
  of \<open>2^(e - 52)\<close>. The range of the exponent is not limited here; a quotient of two
  integers never overflows, and one that is subnormal lies strictly between -1 and 1 like
  its double.
\<close>

definition roundHalfEven :: "rat \<Rightarrow> int" where
  "roundHalfEven y =
     (let f = \<lfloor>y\<rfloor>; d = y - of_int f
      in if d < 1 / 2 then f else if 1 / 2 < d then f + 1 else if even f then f else f + 1)"

text \<open>The binary exponent of \<open>a / b\<close> for positive \<open>a\<close> and \<open>b\<close>, from the bit lengths.\<close>

definition binaryExponent :: "int \<Rightarrow> int \<Rightarrow> int" where
  "binaryExponent a b =
     (let k = bitlen a - bitlen b
      in if (2::rat) powi k \<le> of_int a / of_int b then k else k - 1)"

definition divideAsDouble :: "int \<Rightarrow> int \<Rightarrow> rat" where
  "divideAsDouble a b =
     (if a = 0 then 0
      else let ulp = (2::rat) powi (binaryExponent \<bar>a\<bar> \<bar>b\<bar> - 52);
               m = roundHalfEven (\<bar>of_int a / of_int b\<bar> / ulp)
           in sgn (of_int a / of_int b) * (of_int m * ulp))"

text \<open>
  \<open>Math.ceil(total / limit)\<close> on integer operands: the ceiling of the double quotient.
  A zero divisor gives an infinity of the sign of the dividend, and \<open>0 / 0\<close> is \<open>NaN\<close>.
\<close>

definition Math_ceil_div :: "int \<Rightarrow> int \<Rightarrow> number" where
  "Math_ceil_div n limit =
     (if limit = 0
      then (if 0 < n then PosInfinity else if n < 0 then NegInfinity else NaN)
      else Finite \<lceil>divideAsDouble n limit\<rceil>)"

text \<open>\<open>Number.isSafeInteger\<close>: an integer of magnitude at most \<open>2^53 - 1\<close>.\<close>

definition isSafeInteger :: "int \<Rightarrow> bool" where
  "isSafeInteger n = (- (2 ^ 53 - 1) \<le> n \<and> n \<le> 2 ^ 53 - 1)"

text \<open>\<open>Math.max(1, x)\<close> and \<open>Math.min(m, x)\<close> with a finite first argument: \<open>NaN\<close> is contagious.\<close>

fun Math_max :: "int \<Rightarrow> number \<Rightarrow> number" where
  "Math_max a (Finite b) = Finite (max a b)"
| "Math_max a PosInfinity = PosInfinity"
| "Math_max a NegInfinity = Finite a"
| "Math_max a NaN = NaN"

fun Math_min :: "int \<Rightarrow> number \<Rightarrow> number" where
  "Math_min a (Finite b) = Finite (min a b)"
| "Math_min a PosInfinity = Finite a"
| "Math_min a NegInfinity = NegInfinity"
| "Math_min a NaN = NaN"

section \<open>Business codes (constants/business-codes.ts)\<close>

definition BusinessCode_AUTH_FAILED :: int where "BusinessCode_AUTH_FAILED = 1001"
definition BusinessCode_PERMISSION_DENIED :: int where "BusinessCode_PERMISSION_DENIED = 1007"
definition BusinessCode_VALIDATION_ERROR :: int where "BusinessCode_VALIDATION_ERROR = 3001"
definition BusinessCode_INVALID_INPUT :: int where "BusinessCode_INVALID_INPUT = 3002"
definition BusinessCode_RESOURCE_NOT_FOUND :: int where "BusinessCode_RESOURCE_NOT_FOUND = 4001"
definition BusinessCode_RESOURCE_CONFLICT :: int where "BusinessCode_RESOURCE_CONFLICT = 4008"
definition BusinessCode_INTERNAL_ERROR :: int where "BusinessCode_INTERNAL_ERROR = 5001"
definition BusinessCode_RATE_LIMIT_EXCEEDED :: int where "BusinessCode_RATE_LIMIT_EXCEEDED = 7015"

text \<open>The eight range predicates; a business code is a number, here an integer.\<close>

definition isSuccessCode :: "int \<Rightarrow> bool" where
  "isSuccessCode code = (code \<ge> 0 \<and> code < 100)"

definition isAuthError :: "int \<Rightarrow> bool" where
  "isAuthError code = (code \<ge> 1000 \<and> code < 2000)"

definition isUserError :: "int \<Rightarrow> bool" where
  "isUserError code = (code \<ge> 2000 \<and> code < 3000)"

definition isValidationError :: "int \<Rightarrow> bool" where
  "isValidationError code = (code \<ge> 3000 \<and> code < 4000)"

definition isResourceError :: "int \<Rightarrow> bool" where
  "isResourceError code = (code \<ge> 4000 \<and> code < 5000)"

definition isSystemError :: "int \<Rightarrow> bool" where
  "isSystemError code = (code \<ge> 5000 \<and> code < 6000)"

definition isExternalError :: "int \<Rightarrow> bool" where
  "isExternalError code = (code \<ge> 6000 \<and> code < 7000)"

definition isBusinessLogicError :: "int \<Rightarrow> bool" where
  "isBusinessLogicError code = (code \<ge> 7000 \<and> code < 8000)"

text \<open>The eight predicates of the family, in the order of the source.\<close>

definition rangePredicates :: "(int \<Rightarrow> bool) list" where
  "rangePredicates =
     [isSuccessCode, isAuthError, isUserError, isValidationError,
      isResourceError, isSystemError, isExternalError, isBusinessLogicError]"

text \<open>The eight documented half-open ranges, as pairs of a lower and an upper bound.\<close>

definition documentedRanges :: "(int \<times> int) list" where
  "documentedRanges =
     [(0, 100), (1000, 2000), (2000, 3000), (3000, 4000),
      (4000, 5000), (5000, 6000), (6000, 7000), (7000, 8000)]"

definition inDocumentedRange :: "int \<Rightarrow> bool" where
  "inDocumentedRange c = list_ex (\<lambda>(lo, hi). lo \<le> c \<and> c < hi) documentedRanges"

text \<open>
  A \<open>Record<number, string>\<close>: a finite table from codes to messages. A message is the
  list of the bytes of its UTF-8 text; the empty list is the empty string, the only string
  that is falsy.
\<close>

type_synonym MessageMap = "int \<rightharpoonup> string"

text \<open>The default messages of the business codes.\<close>

definition businessCodeMessages :: MessageMap where
  "businessCodeMessages = map_of
     [
      (0, ''Operation completed successfully''),
      (1, ''Resource created successfully''),
      (2, ''Resource updated successfully''),
      (3, ''Resource deleted successfully''),
      (4, ''Operation accepted for processing''),
      (5, ''No changes were made''),
      (1001, ''Authentication failed''),
      (1002, ''Access token has expired''),
      (1003, ''Access token is invalid''),
      (1004, ''Access token is missing''),
      (1005, ''Refresh token has expired''),
      (1006, ''Refresh token is invalid''),
      (1007, ''Insufficient permissions''),
      (1008, ''Account is locked''),
      (1009, ''Account is not verified''),
      (1010, ''Session has expired''),
      (1011, ''Invalid API key''),
      (1012, ''Too many authentication attempts''),
      (1013, ''Two-factor authentication required''),
      (1014, ''Two-factor authentication failed''),
      (1015, ''OAuth authentication failed''),
      (1016, ''OAuth provider error''),
      (2001, ''User not found''),
      (2002, ''User already exists''),
      (2003, ''User account is inactive''),
      (2004, ''Invalid credentials''),
      (2005, ''User account is suspended''),
      (2006, ''User account is deleted''),
      (2007, ''Email already in use''),
      (2008, ''Username already in use''),
      (2009, ''Phone number already in use''),
      (2010, ''Invalid email format''),
      (2011, ''Password is too weak''),
      (2012, ''Passwords do not match''),
      (2013, ''Old password is incorrect''),
      (2014, ''Profile is incomplete''),
      (3001, ''Validation error''),
      (3002, ''Invalid input''),
      (3003, ''Required field is missing''),
      (3004, ''Value is out of range''),
      (3005, ''Invalid format''),
      (3006, ''Field is too long''),
      (3007, ''Field is too short''),
      (3008, ''Invalid date format''),
      (3009, ''Date cannot be in the past''),
      (3010, ''Date cannot be in the future''),
      (3011, ''Invalid file type''),
      (3012, ''File size is too large''),
      (3013, ''Invalid JSON format''),
      (3014, ''Invalid UUID format''),
      (3015, ''Invalid phone number format''),
      (3016, ''Duplicate entry''),
      (4001, ''Resource not found''),
      (4002, ''Resource already exists''),
      (4003, ''Resource is locked''),
      (4004, ''Resource has been deleted''),
      (4005, ''Resource has expired''),
      (4006, ''Resource limit reached''),
      (4007, ''Resource is not available''),
      (4008, ''Resource conflict''),
      (4009, ''Version mismatch''),
      (4010, ''Cannot delete resource with dependencies''),
      (5001, ''Internal server error''),
      (5002, ''Database error''),
      (5003, ''External service error''),
      (5004, ''Service temporarily unavailable''),
      (5005, ''Configuration error''),
      (5006, ''Cache error''),
      (5007, ''File system error''),
      (5008, ''Memory limit exceeded''),
      (5009, ''Operation timed out''),
      (5010, ''Queue error''),
      (6001, ''Third-party API error''),
      (6002, ''Payment gateway error''),
      (6003, ''Email service error''),
      (6004, ''SMS service error''),
      (6005, ''Storage service error''),
      (6006, ''Search service error''),
      (6007, ''Notification service error''),
      (6008, ''Analytics service error''),
      (7001, ''Operation not allowed''),
      (7002, ''Insufficient balance''),
      (7003, ''Transaction failed''),
      (7004, ''Order cannot be cancelled''),
      (7005, ''Order cannot be modified''),
      (7006, ''Item out of stock''),
      (7007, ''Coupon is invalid''),
      (7008, ''Coupon has expired''),
      (7009, ''Minimum order not met''),
      (7010, ''Maximum quantity exceeded''),
      (7011, ''Subscription required''),
      (7012, ''Subscription has expired''),
      (7013, ''Feature not available''),
      (7014, ''Quota exceeded''),
      (7015, ''Rate limit exceeded'')
     ]"

text \<open>\<open>businessCodeMessages[code] || 'Unknown error'\<close>: a missing or empty entry gives the sentinel.\<close>

definition getBusinessCodeMessage :: "int \<Rightarrow> string" where
  "getBusinessCodeMessage code =
     (case businessCodeMessages code of
        None \<Rightarrow> ''Unknown error''
      | Some m \<Rightarrow> if m \<noteq> [] then m else ''Unknown error'')"

section \<open>Localized messages (i18n/types.ts, i18n/locales, i18n/message-provider.ts)\<close>

text \<open>
  The type \<open>Locale\<close> is \<open>'en' | 'vi'\<close>; at run time a locale is any string, and the
  provider reads its tables with optional chaining, so that a locale without a table has
  no entries. The tables below are the own properties of the source's objects. Indexing
  a plain object with the name of a property that every object inherits gives the
  inherited member instead of \<open>undefined\<close>. For the message tables this makes no
  difference, since an inherited member has no entry for a code; for the table of the
  sentinels it does, so what is stated about the sentinel is stated for the other locales.
\<close>

type_synonym Locale = string

text \<open>The names of the properties that a plain object inherits from \<open>Object.prototype\<close>.\<close>

definition inheritedPropertyNames :: "string list" where
  "inheritedPropertyNames =
     [''constructor'', ''__proto__'', ''hasOwnProperty'', ''isPrototypeOf'',
      ''propertyIsEnumerable'', ''toLocaleString'', ''toString'', ''valueOf'',
      ''__defineGetter__'', ''__defineSetter__'', ''__lookupGetter__'', ''__lookupSetter__'']"

definition enMessages :: MessageMap where
  "enMessages = map_of
     [
      (0, ''Operation completed successfully''),
      (1, ''Resource created successfully''),
      (2, ''Resource updated successfully''),
      (3, ''Resource deleted successfully''),
      (4, ''Operation accepted for processing''),
      (5, ''No changes were made''),
      (1001, ''Authentication failed''),
      (1002, ''Access token has expired''),
      (1003, ''Access token is invalid''),
      (1004, ''Access token is missing''),
      (1005, ''Refresh token has expired''),
      (1006, ''Refresh token is invalid''),
      (1007, ''Insufficient permissions''),
      (1008, ''Account is locked''),
      (1009, ''Account is not verified''),
      (1010, ''Session has expired''),
      (1011, ''Invalid API key''),
      (1012, ''Too many authentication attempts''),
      (1013, ''Two-factor authentication required''),
      (1014, ''Two-factor authentication failed''),
      (1015, ''OAuth authentication failed''),
      (1016, ''OAuth provider error''),
      (2001, ''User not found''),
      (2002, ''User already exists''),
      (2003, ''User account is inactive''),
      (2004, ''Invalid credentials''),
      (2005, ''User account is suspended''),
      (2006, ''User account is deleted''),
      (2007, ''Email already in use''),
      (2008, ''Username already in use''),
      (2009, ''Phone number already in use''),
      (2010, ''Invalid email format''),
      (2011, ''Password is too weak''),
      (2012, ''Passwords do not match''),
      (2013, ''Old password is incorrect''),
      (2014, ''Profile is incomplete''),
      (3001, ''Validation error''),
      (3002, ''Invalid input''),
      (3003, ''Required field is missing''),
      (3004, ''Value is out of range''),
      (3005, ''Invalid format''),
      (3006, ''Field is too long''),
      (3007, ''Field is too short''),
      (3008, ''Invalid date format''),
      (3009, ''Date cannot be in the past''),
      (3010, ''Date cannot be in the future''),
      (3011, ''Invalid file type''),
      (3012, ''File size is too large''),
      (3013, ''Invalid JSON format''),
      (3014, ''Invalid UUID format''),
      (3015, ''Invalid phone number format''),
      (3016, ''Duplicate entry''),
      (4001, ''Resource not found''),
      (4002, ''Resource already exists''),
      (4003, ''Resource is locked''),
      (4004, ''Resource has been deleted''),
      (4005, ''Resource has expired''),
      (4006, ''Resource limit reached''),
      (4007, ''Resource is not available''),
      (4008, ''Resource conflict''),
      (4009, ''Version mismatch''),
      (4010, ''Cannot delete resource with dependencies''),
      (5001, ''Internal server error''),
      (5002, ''Database error''),
      (5003, ''External service error''),
      (5004, ''Service temporarily unavailable''),
      (5005, ''Configuration error''),
      (5006, ''Cache error''),
      (5007, ''File system error''),
      (5008, ''Memory limit exceeded''),
      (5009, ''Operation timed out''),
      (5010, ''Queue error''),
      (6001, ''Third-party API error''),
      (6002, ''Payment gateway error''),
      (6003, ''Email service error''),
      (6004, ''SMS service error''),
      (6005, ''Storage service error''),
      (6006, ''Search service error''),
      (6007, ''Notification service error''),
      (6008, ''Analytics service error''),
      (7001, ''Operation not allowed''),
      (7002, ''Insufficient balance''),
      (7003, ''Transaction failed''),
      (7004, ''Order cannot be cancelled''),
      (7005, ''Order cannot be modified''),
      (7006, ''Item out of stock''),
      (7007, ''Coupon is invalid''),
      (7008, ''Coupon has expired''),
      (7009, ''Minimum order not met''),
      (7010, ''Maximum quantity exceeded''),
      (7011, ''Subscription required''),
      (7012, ''Subscription has expired''),
      (7013, ''Feature not available''),
      (7014, ''Quota exceeded''),
      (7015, ''Rate limit exceeded'')
     ]"

definition viMessages :: MessageMap where
  "viMessages = map_of
     [
      (0, ''Thao t'' @ [CHR 0xC3, CHR 0xA1] @ ''c th'' @ [CHR 0xC3, CHR 0xA0] @ ''nh c'' @ [CHR 0xC3, CHR 0xB4] @ ''ng''),
      (1, ''T'' @ [CHR 0xE1, CHR 0xBA, CHR 0xA1] @ ''o m'' @ [CHR 0xE1, CHR 0xBB, CHR 0x9B] @ ''i th'' @ [CHR 0xC3, CHR 0xA0] @ ''nh c'' @ [CHR 0xC3, CHR 0xB4] @ ''ng''),
      (2, ''C'' @ [CHR 0xE1, CHR 0xBA, CHR 0xAD] @ ''p nh'' @ [CHR 0xE1, CHR 0xBA, CHR 0xAD] @ ''t th'' @ [CHR 0xC3, CHR 0xA0] @ ''nh c'' @ [CHR 0xC3, CHR 0xB4] @ ''ng''),
      (3, ''X'' @ [CHR 0xC3, CHR 0xB3] @ ''a th'' @ [CHR 0xC3, CHR 0xA0] @ ''nh c'' @ [CHR 0xC3, CHR 0xB4] @ ''ng''),
      (4, ''Y'' @ [CHR 0xC3, CHR 0xAA] @ ''u c'' @ [CHR 0xE1, CHR 0xBA, CHR 0xA7] @ ''u '' @ [CHR 0xC4, CHR 0x91, CHR 0xC3, CHR 0xA3] @ '' '' @ [CHR 0xC4, CHR 0x91, CHR 0xC6, CHR 0xB0, CHR 0xE1, CHR 0xBB, CHR 0xA3] @ ''c ti'' @ [CHR 0xE1, CHR 0xBA, CHR 0xBF] @ ''p nh'' @ [CHR 0xE1, CHR 0xBA, CHR 0xAD] @ ''n''),
      (5, ''Kh'' @ [CHR 0xC3, CHR 0xB4] @ ''ng c'' @ [CHR 0xC3, CHR 0xB3] @ '' thay '' @ [CHR 0xC4, CHR 0x91, CHR 0xE1, CHR 0xBB, CHR 0x95] @ ''i''),
      (1001, ''X'' @ [CHR 0xC3, CHR 0xA1] @ ''c th'' @ [CHR 0xE1, CHR 0xBB, CHR 0xB1] @ ''c th'' @ [CHR 0xE1, CHR 0xBA, CHR 0xA5] @ ''t b'' @ [CHR 0xE1, CHR 0xBA, CHR 0xA1] @ ''i''),
      (1002, ''Token '' @ [CHR 0xC4, CHR 0x91, CHR 0xC3, CHR 0xA3] @ '' h'' @ [CHR 0xE1, CHR 0xBA, CHR 0xBF] @ ''t h'' @ [CHR 0xE1, CHR 0xBA, CHR 0xA1] @ ''n''),
      (1003, ''Token kh'' @ [CHR 0xC3, CHR 0xB4] @ ''ng h'' @ [CHR 0xE1, CHR 0xBB, CHR 0xA3] @ ''p l'' @ [CHR 0xE1, CHR 0xBB, CHR 0x87]),
      (1004, ''Thi'' @ [CHR 0xE1, CHR 0xBA, CHR 0xBF] @ ''u token x'' @ [CHR 0xC3, CHR 0xA1] @ ''c th'' @ [CHR 0xE1, CHR 0xBB, CHR 0xB1] @ ''c''),
      (1005, ''Refresh token '' @ [CHR 0xC4, CHR 0x91, CHR 0xC3, CHR 0xA3] @ '' h'' @ [CHR 0xE1, CHR 0xBA, CHR 0xBF] @ ''t h'' @ [CHR 0xE1, CHR 0xBA, CHR 0xA1] @ ''n''),
      (1006, ''Refresh token kh'' @ [CHR 0xC3, CHR 0xB4] @ ''ng h'' @ [CHR 0xE1, CHR 0xBB, CHR 0xA3] @ ''p l'' @ [CHR 0xE1, CHR 0xBB, CHR 0x87]),
      (1007, ''Kh'' @ [CHR 0xC3, CHR 0xB4] @ ''ng '' @ [CHR 0xC4, CHR 0x91, CHR 0xE1, CHR 0xBB, CHR 0xA7] @ '' quy'' @ [CHR 0xE1, CHR 0xBB, CHR 0x81] @ ''n truy c'' @ [CHR 0xE1, CHR 0xBA, CHR 0xAD] @ ''p''),
      (1008, ''T'' @ [CHR 0xC3, CHR 0xA0] @ ''i kho'' @ [CHR 0xE1, CHR 0xBA, CHR 0xA3] @ ''n '' @ [CHR 0xC4, CHR 0x91, CHR 0xC3, CHR 0xA3] @ '' b'' @ [CHR 0xE1, CHR 0xBB, CHR 0x8B] @ '' kh'' @ [CHR 0xC3, CHR 0xB3] @ ''a''),
      (1009, ''T'' @ [CHR 0xC3, CHR 0xA0] @ ''i kho'' @ [CHR 0xE1, CHR 0xBA, CHR 0xA3] @ ''n ch'' @ [CHR 0xC6, CHR 0xB0] @ ''a '' @ [CHR 0xC4, CHR 0x91, CHR 0xC6, CHR 0xB0, CHR 0xE1, CHR 0xBB, CHR 0xA3] @ ''c x'' @ [CHR 0xC3, CHR 0xA1] @ ''c minh''),
      (1010, ''Phi'' @ [CHR 0xC3, CHR 0xAA] @ ''n '' @ [CHR 0xC4, CHR 0x91, CHR 0xC4, CHR 0x83] @ ''ng nh'' @ [CHR 0xE1, CHR 0xBA, CHR 0xAD] @ ''p '' @ [CHR 0xC4, CHR 0x91, CHR 0xC3, CHR 0xA3] @ '' h'' @ [CHR 0xE1, CHR 0xBA, CHR 0xBF] @ ''t h'' @ [CHR 0xE1, CHR 0xBA, CHR 0xA1] @ ''n''),
      (1011, ''API key kh'' @ [CHR 0xC3, CHR 0xB4] @ ''ng h'' @ [CHR 0xE1, CHR 0xBB, CHR 0xA3] @ ''p l'' @ [CHR 0xE1, CHR 0xBB, CHR 0x87]),
      (1012, ''Qu'' @ [CHR 0xC3, CHR 0xA1] @ '' nhi'' @ [CHR 0xE1, CHR 0xBB, CHR 0x81] @ ''u l'' @ [CHR 0xE1, CHR 0xBA, CHR 0xA7] @ ''n '' @ [CHR 0xC4, CHR 0x91, CHR 0xC4, CHR 0x83] @ ''ng nh'' @ [CHR 0xE1, CHR 0xBA, CHR 0xAD] @ ''p th'' @ [CHR 0xE1, CHR 0xBA, CHR 0xA5] @ ''t b'' @ [CHR 0xE1, CHR 0xBA, CHR 0xA1] @ ''i''),
      (1013, ''Y'' @ [CHR 0xC3, CHR 0xAA] @ ''u c'' @ [CHR 0xE1, CHR 0xBA, CHR 0xA7] @ ''u x'' @ [CHR 0xC3, CHR 0xA1] @ ''c th'' @ [CHR 0xE1, CHR 0xBB, CHR 0xB1] @ ''c hai y'' @ [CHR 0xE1, CHR 0xBA, CHR 0xBF] @ ''u t'' @ [CHR 0xE1, CHR 0xBB, CHR 0x91]),
      (1014, ''X'' @ [CHR 0xC3, CHR 0xA1] @ ''c th'' @ [CHR 0xE1, CHR 0xBB, CHR 0xB1] @ ''c hai y'' @ [CHR 0xE1, CHR 0xBA, CHR 0xBF] @ ''u t'' @ [CHR 0xE1, CHR 0xBB, CHR 0x91] @ '' th'' @ [CHR 0xE1, CHR 0xBA, CHR 0xA5] @ ''t b'' @ [CHR 0xE1, CHR 0xBA, CHR 0xA1] @ ''i''),
      (1015, [CHR 0xC4, CHR 0x90, CHR 0xC4, CHR 0x83] @ ''ng nh'' @ [CHR 0xE1, CHR 0xBA, CHR 0xAD] @ ''p OAuth th'' @ [CHR 0xE1, CHR 0xBA, CHR 0xA5] @ ''t b'' @ [CHR 0xE1, CHR 0xBA, CHR 0xA1] @ ''i''),
      (1016, ''L'' @ [CHR 0xE1, CHR 0xBB, CHR 0x97] @ ''i nh'' @ [CHR 0xC3, CHR 0xA0] @ '' cung c'' @ [CHR 0xE1, CHR 0xBA, CHR 0xA5] @ ''p OAuth''),
      (2001, ''Kh'' @ [CHR 0xC3, CHR 0xB4] @ ''ng t'' @ [CHR 0xC3, CHR 0xAC] @ ''m th'' @ [CHR 0xE1, CHR 0xBA, CHR 0xA5] @ ''y ng'' @ [CHR 0xC6, CHR 0xB0, CHR 0xE1, CHR 0xBB, CHR 0x9D] @ ''i d'' @ [CHR 0xC3, CHR 0xB9] @ ''ng''),
      (2002, ''Ng'' @ [CHR 0xC6, CHR 0xB0, CHR 0xE1, CHR 0xBB, CHR 0x9D] @ ''i d'' @ [CHR 0xC3, CHR 0xB9] @ ''ng '' @ [CHR 0xC4, CHR 0x91, CHR 0xC3, CHR 0xA3] @ '' t'' @ [CHR 0xE1, CHR 0xBB, CHR 0x93] @ ''n t'' @ [CHR 0xE1, CHR 0xBA, CHR 0xA1] @ ''i''),
      (2003, ''T'' @ [CHR 0xC3, CHR 0xA0] @ ''i kho'' @ [CHR 0xE1, CHR 0xBA, CHR 0xA3] @ ''n kh'' @ [CHR 0xC3, CHR 0xB4] @ ''ng ho'' @ [CHR 0xE1, CHR 0xBA, CHR 0xA1] @ ''t '' @ [CHR 0xC4, CHR 0x91, CHR 0xE1, CHR 0xBB, CHR 0x99] @ ''ng''),
      (2004, ''Th'' @ [CHR 0xC3, CHR 0xB4] @ ''ng tin '' @ [CHR 0xC4, CHR 0x91, CHR 0xC4, CHR 0x83] @ ''ng nh'' @ [CHR 0xE1, CHR 0xBA, CHR 0xAD] @ ''p kh'' @ [CHR 0xC3, CHR 0xB4] @ ''ng '' @ [CHR 0xC4, CHR 0x91, CHR 0xC3, CHR 0xBA] @ ''ng''),
      (2005, ''T'' @ [CHR 0xC3, CHR 0xA0] @ ''i kho'' @ [CHR 0xE1, CHR 0xBA, CHR 0xA3] @ ''n '' @ [CHR 0xC4, CHR 0x91, CHR 0xC3, CHR 0xA3] @ '' b'' @ [CHR 0xE1, CHR 0xBB, CHR 0x8B] @ '' t'' @ [CHR 0xE1, CHR 0xBA, CHR 0xA1] @ ''m ng'' @ [CHR 0xC6, CHR 0xB0] @ ''ng''),
      (2006, ''T'' @ [CHR 0xC3, CHR 0xA0] @ ''i kho'' @ [CHR 0xE1, CHR 0xBA, CHR 0xA3] @ ''n '' @ [CHR 0xC4, CHR 0x91, CHR 0xC3, CHR 0xA3] @ '' b'' @ [CHR 0xE1, CHR 0xBB, CHR 0x8B] @ '' x'' @ [CHR 0xC3, CHR 0xB3] @ ''a''),
      (2007, ''Email '' @ [CHR 0xC4, CHR 0x91, CHR 0xC3, CHR 0xA3] @ '' '' @ [CHR 0xC4, CHR 0x91, CHR 0xC6, CHR 0xB0, CHR 0xE1, CHR 0xBB, CHR 0xA3] @ ''c s'' @ [CHR 0xE1, CHR 0xBB, CHR 0xAD] @ '' d'' @ [CHR 0xE1, CHR 0xBB, CHR 0xA5] @ ''ng''),
      (2008, ''T'' @ [CHR 0xC3, CHR 0xAA] @ ''n '' @ [CHR 0xC4, CHR 0x91, CHR 0xC4, CHR 0x83] @ ''ng nh'' @ [CHR 0xE1, CHR 0xBA, CHR 0xAD] @ ''p '' @ [CHR 0xC4, CHR 0x91, CHR 0xC3, CHR 0xA3] @ '' '' @ [CHR 0xC4, CHR 0x91, CHR 0xC6, CHR 0xB0, CHR 0xE1, CHR 0xBB, CHR 0xA3] @ ''c s'' @ [CHR 0xE1, CHR 0xBB, CHR 0xAD] @ '' d'' @ [CHR 0xE1, CHR 0xBB, CHR 0xA5] @ ''ng''),
      (2009, ''S'' @ [CHR 0xE1, CHR 0xBB, CHR 0x91] @ '' '' @ [CHR 0xC4, CHR 0x91] @ ''i'' @ [CHR 0xE1, CHR 0xBB, CHR 0x87] @ ''n tho'' @ [CHR 0xE1, CHR 0xBA, CHR 0xA1] @ ''i '' @ [CHR 0xC4, CHR 0x91, CHR 0xC3, CHR 0xA3] @ '' '' @ [CHR 0xC4, CHR 0x91, CHR 0xC6, CHR 0xB0, CHR 0xE1, CHR 0xBB, CHR 0xA3] @ ''c s'' @ [CHR 0xE1, CHR 0xBB, CHR 0xAD] @ '' d'' @ [CHR 0xE1, CHR 0xBB, CHR 0xA5] @ ''ng''),
      (2010, ''Email kh'' @ [CHR 0xC3, CHR 0xB4] @ ''ng '' @ [CHR 0xC4, CHR 0x91, CHR 0xC3, CHR 0xBA] @ ''ng '' @ [CHR 0xC4, CHR 0x91, CHR 0xE1, CHR 0xBB, CHR 0x8B] @ ''nh d'' @ [CHR 0xE1, CHR 0xBA, CHR 0xA1] @ ''ng''),
      (2011, ''M'' @ [CHR 0xE1, CHR 0xBA, CHR 0xAD] @ ''t kh'' @ [CHR 0xE1, CHR 0xBA, CHR 0xA9] @ ''u qu'' @ [CHR 0xC3, CHR 0xA1] @ '' y'' @ [CHR 0xE1, CHR 0xBA, CHR 0xBF] @ ''u''),
      (2012, ''M'' @ [CHR 0xE1, CHR 0xBA, CHR 0xAD] @ ''t kh'' @ [CHR 0xE1, CHR 0xBA, CHR 0xA9] @ ''u kh'' @ [CHR 0xC3, CHR 0xB4] @ ''ng kh'' @ [CHR 0xE1, CHR 0xBB, CHR 0x9B] @ ''p''),
      (2013, ''M'' @ [CHR 0xE1, CHR 0xBA, CHR 0xAD] @ ''t kh'' @ [CHR 0xE1, CHR 0xBA, CHR 0xA9] @ ''u c'' @ [CHR 0xC5, CHR 0xA9] @ '' kh'' @ [CHR 0xC3, CHR 0xB4] @ ''ng '' @ [CHR 0xC4, CHR 0x91, CHR 0xC3, CHR 0xBA] @ ''ng''),
      (2014, ''H'' @ [CHR 0xE1, CHR 0xBB, CHR 0x93] @ '' s'' @ [CHR 0xC6, CHR 0xA1] @ '' ch'' @ [CHR 0xC6, CHR 0xB0] @ ''a ho'' @ [CHR 0xC3, CHR 0xA0] @ ''n thi'' @ [CHR 0xE1, CHR 0xBB, CHR 0x87] @ ''n''),
      (3001, ''L'' @ [CHR 0xE1, CHR 0xBB, CHR 0x97] @ ''i x'' @ [CHR 0xC3, CHR 0xA1] @ ''c th'' @ [CHR 0xE1, CHR 0xBB, CHR 0xB1] @ ''c d'' @ [CHR 0xE1, CHR 0xBB, CHR 0xAF] @ '' li'' @ [CHR 0xE1, CHR 0xBB, CHR 0x87] @ ''u''),
      (3002, ''D'' @ [CHR 0xE1, CHR 0xBB, CHR 0xAF] @ '' li'' @ [CHR 0xE1, CHR 0xBB, CHR 0x87] @ ''u '' @ [CHR 0xC4, CHR 0x91, CHR 0xE1, CHR 0xBA, CHR 0xA7] @ ''u v'' @ [CHR 0xC3, CHR 0xA0] @ ''o kh'' @ [CHR 0xC3, CHR 0xB4] @ ''ng h'' @ [CHR 0xE1, CHR 0xBB, CHR 0xA3] @ ''p l'' @ [CHR 0xE1, CHR 0xBB, CHR 0x87]),
      (3003, ''Thi'' @ [CHR 0xE1, CHR 0xBA, CHR 0xBF] @ ''u tr'' @ [CHR 0xC6, CHR 0xB0, CHR 0xE1, CHR 0xBB, CHR 0x9D] @ ''ng b'' @ [CHR 0xE1, CHR 0xBA, CHR 0xAF] @ ''t bu'' @ [CHR 0xE1, CHR 0xBB, CHR 0x99] @ ''c''),
      (3004, ''Gi'' @ [CHR 0xC3, CHR 0xA1] @ '' tr'' @ [CHR 0xE1, CHR 0xBB, CHR 0x8B] @ '' n'' @ [CHR 0xE1, CHR 0xBA, CHR 0xB1] @ ''m ngo'' @ [CHR 0xC3, CHR 0xA0] @ ''i ph'' @ [CHR 0xE1, CHR 0xBA, CHR 0xA1] @ ''m vi cho ph'' @ [CHR 0xC3, CHR 0xA9] @ ''p''),
      (3005, [CHR 0xC4, CHR 0x90, CHR 0xE1, CHR 0xBB, CHR 0x8B] @ ''nh d'' @ [CHR 0xE1, CHR 0xBA, CHR 0xA1] @ ''ng kh'' @ [CHR 0xC3, CHR 0xB4] @ ''ng h'' @ [CHR 0xE1, CHR 0xBB, CHR 0xA3] @ ''p l'' @ [CHR 0xE1, CHR 0xBB, CHR 0x87]),
      (3006, ''Tr'' @ [CHR 0xC6, CHR 0xB0, CHR 0xE1, CHR 0xBB, CHR 0x9D] @ ''ng qu'' @ [CHR 0xC3, CHR 0xA1] @ '' d'' @ [CHR 0xC3, CHR 0xA0] @ ''i''),
      (3007, ''Tr'' @ [CHR 0xC6, CHR 0xB0, CHR 0xE1, CHR 0xBB, CHR 0x9D] @ ''ng qu'' @ [CHR 0xC3, CHR 0xA1] @ '' ng'' @ [CHR 0xE1, CHR 0xBA, CHR 0xAF] @ ''n''),
      (3008, [CHR 0xC4, CHR 0x90, CHR 0xE1, CHR 0xBB, CHR 0x8B] @ ''nh d'' @ [CHR 0xE1, CHR 0xBA, CHR 0xA1] @ ''ng ng'' @ [CHR 0xC3, CHR 0xA0] @ ''y kh'' @ [CHR 0xC3, CHR 0xB4] @ ''ng h'' @ [CHR 0xE1, CHR 0xBB, CHR 0xA3] @ ''p l'' @ [CHR 0xE1, CHR 0xBB, CHR 0x87]),
      (3009, ''Ng'' @ [CHR 0xC3, CHR 0xA0] @ ''y kh'' @ [CHR 0xC3, CHR 0xB4] @ ''ng th'' @ [CHR 0xE1, CHR 0xBB, CHR 0x83] @ '' '' @ [CHR 0xE1, CHR 0xBB, CHR 0x9F] @ '' qu'' @ [CHR 0xC3, CHR 0xA1] @ '' kh'' @ [CHR 0xE1, CHR 0xBB, CHR 0xA9]),
      (3010, ''Ng'' @ [CHR 0xC3, CHR 0xA0] @ ''y kh'' @ [CHR 0xC3, CHR 0xB4] @ ''ng th'' @ [CHR 0xE1, CHR 0xBB, CHR 0x83] @ '' '' @ [CHR 0xE1, CHR 0xBB, CHR 0x9F] @ '' t'' @ [CHR 0xC6, CHR 0xB0, CHR 0xC6, CHR 0xA1] @ ''ng lai''),
      (3011, ''Lo'' @ [CHR 0xE1, CHR 0xBA, CHR 0xA1] @ ''i t'' @ [CHR 0xE1, CHR 0xBB, CHR 0x87] @ ''p kh'' @ [CHR 0xC3, CHR 0xB4] @ ''ng h'' @ [CHR 0xE1, CHR 0xBB, CHR 0xA3] @ ''p l'' @ [CHR 0xE1, CHR 0xBB, CHR 0x87]),
      (3012, ''K'' @ [CHR 0xC3, CHR 0xAD] @ ''ch th'' @ [CHR 0xC6, CHR 0xB0, CHR 0xE1, CHR 0xBB, CHR 0x9B] @ ''c t'' @ [CHR 0xE1, CHR 0xBB, CHR 0x87] @ ''p qu'' @ [CHR 0xC3, CHR 0xA1] @ '' l'' @ [CHR 0xE1, CHR 0xBB, CHR 0x9B] @ ''n''),
      (3013, [CHR 0xC4, CHR 0x90, CHR 0xE1, CHR 0xBB, CHR 0x8B] @ ''nh d'' @ [CHR 0xE1, CHR 0xBA, CHR 0xA1] @ ''ng JSON kh'' @ [CHR 0xC3, CHR 0xB4] @ ''ng h'' @ [CHR 0xE1, CHR 0xBB, CHR 0xA3] @ ''p l'' @ [CHR 0xE1, CHR 0xBB, CHR 0x87]),
      (3014, [CHR 0xC4, CHR 0x90, CHR 0xE1, CHR 0xBB, CHR 0x8B] @ ''nh d'' @ [CHR 0xE1, CHR 0xBA, CHR 0xA1] @ ''ng UUID kh'' @ [CHR 0xC3, CHR 0xB4] @ ''ng h'' @ [CHR 0xE1, CHR 0xBB, CHR 0xA3] @ ''p l'' @ [CHR 0xE1, CHR 0xBB, CHR 0x87]),
      (3015, ''S'' @ [CHR 0xE1, CHR 0xBB, CHR 0x91] @ '' '' @ [CHR 0xC4, CHR 0x91] @ ''i'' @ [CHR 0xE1, CHR 0xBB, CHR 0x87] @ ''n tho'' @ [CHR 0xE1, CHR 0xBA, CHR 0xA1] @ ''i kh'' @ [CHR 0xC3, CHR 0xB4] @ ''ng h'' @ [CHR 0xE1, CHR 0xBB, CHR 0xA3] @ ''p l'' @ [CHR 0xE1, CHR 0xBB, CHR 0x87]),
      (3016, ''D'' @ [CHR 0xE1, CHR 0xBB, CHR 0xAF] @ '' li'' @ [CHR 0xE1, CHR 0xBB, CHR 0x87] @ ''u b'' @ [CHR 0xE1, CHR 0xBB, CHR 0x8B] @ '' tr'' @ [CHR 0xC3, CHR 0xB9] @ ''ng l'' @ [CHR 0xE1, CHR 0xBA, CHR 0xB7] @ ''p''),
      (4001, ''Kh'' @ [CHR 0xC3, CHR 0xB4] @ ''ng t'' @ [CHR 0xC3, CHR 0xAC] @ ''m th'' @ [CHR 0xE1, CHR 0xBA, CHR 0xA5] @ ''y t'' @ [CHR 0xC3, CHR 0xA0] @ ''i nguy'' @ [CHR 0xC3, CHR 0xAA] @ ''n''),
      (4002, ''T'' @ [CHR 0xC3, CHR 0xA0] @ ''i nguy'' @ [CHR 0xC3, CHR 0xAA] @ ''n '' @ [CHR 0xC4, CHR 0x91, CHR 0xC3, CHR 0xA3] @ '' t'' @ [CHR 0xE1, CHR 0xBB, CHR 0x93] @ ''n t'' @ [CHR 0xE1, CHR 0xBA, CHR 0xA1] @ ''i''),
      (4003, ''T'' @ [CHR 0xC3, CHR 0xA0] @ ''i nguy'' @ [CHR 0xC3, CHR 0xAA] @ ''n '' @ [CHR 0xC4, CHR 0x91] @ ''ang b'' @ [CHR 0xE1, CHR 0xBB, CHR 0x8B] @ '' kh'' @ [CHR 0xC3, CHR 0xB3] @ ''a''),
      (4004, ''T'' @ [CHR 0xC3, CHR 0xA0] @ ''i nguy'' @ [CHR 0xC3, CHR 0xAA] @ ''n '' @ [CHR 0xC4, CHR 0x91, CHR 0xC3, CHR 0xA3] @ '' b'' @ [CHR 0xE1, CHR 0xBB, CHR 0x8B] @ '' x'' @ [CHR 0xC3, CHR 0xB3] @ ''a''),
      (4005, ''T'' @ [CHR 0xC3, CHR 0xA0] @ ''i nguy'' @ [CHR 0xC3, CHR 0xAA] @ ''n '' @ [CHR 0xC4, CHR 0x91, CHR 0xC3, CHR 0xA3] @ '' h'' @ [CHR 0xE1, CHR 0xBA, CHR 0xBF] @ ''t h'' @ [CHR 0xE1, CHR 0xBA, CHR 0xA1] @ ''n''),
      (4006, [CHR 0xC4, CHR 0x90, CHR 0xC3, CHR 0xA3] @ '' '' @ [CHR 0xC4, CHR 0x91, CHR 0xE1, CHR 0xBA, CHR 0xA1] @ ''t gi'' @ [CHR 0xE1, CHR 0xBB, CHR 0x9B] @ ''i h'' @ [CHR 0xE1, CHR 0xBA, CHR 0xA1] @ ''n t'' @ [CHR 0xC3, CHR 0xA0] @ ''i nguy'' @ [CHR 0xC3, CHR 0xAA] @ ''n''),
      (4007, ''T'' @ [CHR 0xC3, CHR 0xA0] @ ''i nguy'' @ [CHR 0xC3, CHR 0xAA] @ ''n kh'' @ [CHR 0xC3, CHR 0xB4] @ ''ng kh'' @ [CHR 0xE1, CHR 0xBA, CHR 0xA3] @ '' d'' @ [CHR 0xE1, CHR 0xBB, CHR 0xA5] @ ''ng''),
      (4008, ''Xung '' @ [CHR 0xC4, CHR 0x91, CHR 0xE1, CHR 0xBB, CHR 0x99] @ ''t t'' @ [CHR 0xC3, CHR 0xA0] @ ''i nguy'' @ [CHR 0xC3, CHR 0xAA] @ ''n''),
      (4009, ''Phi'' @ [CHR 0xC3, CHR 0xAA] @ ''n b'' @ [CHR 0xE1, CHR 0xBA, CHR 0xA3] @ ''n kh'' @ [CHR 0xC3, CHR 0xB4] @ ''ng kh'' @ [CHR 0xE1, CHR 0xBB, CHR 0x9B] @ ''p''),
      (4010, ''Kh'' @ [CHR 0xC3, CHR 0xB4] @ ''ng th'' @ [CHR 0xE1, CHR 0xBB, CHR 0x83] @ '' x'' @ [CHR 0xC3, CHR 0xB3] @ ''a t'' @ [CHR 0xC3, CHR 0xA0] @ ''i nguy'' @ [CHR 0xC3, CHR 0xAA] @ ''n c'' @ [CHR 0xC3, CHR 0xB3] @ '' ph'' @ [CHR 0xE1, CHR 0xBB, CHR 0xA5] @ '' thu'' @ [CHR 0xE1, CHR 0xBB, CHR 0x99] @ ''c''),
      (5001, ''L'' @ [CHR 0xE1, CHR 0xBB, CHR 0x97] @ ''i m'' @ [CHR 0xC3, CHR 0xA1] @ ''y ch'' @ [CHR 0xE1, CHR 0xBB, CHR 0xA7] @ '' n'' @ [CHR 0xE1, CHR 0xBB, CHR 0x99] @ ''i b'' @ [CHR 0xE1, CHR 0xBB, CHR 0x99]),
      (5002, ''L'' @ [CHR 0xE1, CHR 0xBB, CHR 0x97] @ ''i c'' @ [CHR 0xC6, CHR 0xA1] @ '' s'' @ [CHR 0xE1, CHR 0xBB, CHR 0x9F] @ '' d'' @ [CHR 0xE1, CHR 0xBB, CHR 0xAF] @ '' li'' @ [CHR 0xE1, CHR 0xBB, CHR 0x87] @ ''u''),
      (5003, ''L'' @ [CHR 0xE1, CHR 0xBB, CHR 0x97] @ ''i d'' @ [CHR 0xE1, CHR 0xBB, CHR 0x8B] @ ''ch v'' @ [CHR 0xE1, CHR 0xBB, CHR 0xA5] @ '' b'' @ [CHR 0xC3, CHR 0xAA] @ ''n ngo'' @ [CHR 0xC3, CHR 0xA0] @ ''i''),
      (5004, ''D'' @ [CHR 0xE1, CHR 0xBB, CHR 0x8B] @ ''ch v'' @ [CHR 0xE1, CHR 0xBB, CHR 0xA5] @ '' t'' @ [CHR 0xE1, CHR 0xBA, CHR 0xA1] @ ''m th'' @ [CHR 0xE1, CHR 0xBB, CHR 0x9D] @ ''i kh'' @ [CHR 0xC3, CHR 0xB4] @ ''ng kh'' @ [CHR 0xE1, CHR 0xBA, CHR 0xA3] @ '' d'' @ [CHR 0xE1, CHR 0xBB, CHR 0xA5] @ ''ng''),
      (5005, ''L'' @ [CHR 0xE1, CHR 0xBB, CHR 0x97] @ ''i c'' @ [CHR 0xE1, CHR 0xBA, CHR 0xA5] @ ''u h'' @ [CHR 0xC3, CHR 0xAC] @ ''nh''),
      (5006, ''L'' @ [CHR 0xE1, CHR 0xBB, CHR 0x97] @ ''i b'' @ [CHR 0xE1, CHR 0xBB, CHR 0x99] @ '' nh'' @ [CHR 0xE1, CHR 0xBB, CHR 0x9B] @ '' '' @ [CHR 0xC4, CHR 0x91, CHR 0xE1, CHR 0xBB, CHR 0x87] @ ''m''),
      (5007, ''L'' @ [CHR 0xE1, CHR 0xBB, CHR 0x97] @ ''i h'' @ [CHR 0xE1, CHR 0xBB, CHR 0x87] @ '' th'' @ [CHR 0xE1, CHR 0xBB, CHR 0x91] @ ''ng t'' @ [CHR 0xE1, CHR 0xBB, CHR 0x87] @ ''p''),
      (5008, ''V'' @ [CHR 0xC6, CHR 0xB0, CHR 0xE1, CHR 0xBB, CHR 0xA3] @ ''t qu'' @ [CHR 0xC3, CHR 0xA1] @ '' gi'' @ [CHR 0xE1, CHR 0xBB, CHR 0x9B] @ ''i h'' @ [CHR 0xE1, CHR 0xBA, CHR 0xA1] @ ''n b'' @ [CHR 0xE1, CHR 0xBB, CHR 0x99] @ '' nh'' @ [CHR 0xE1, CHR 0xBB, CHR 0x9B]),
      (5009, ''Thao t'' @ [CHR 0xC3, CHR 0xA1] @ ''c qu'' @ [CHR 0xC3, CHR 0xA1] @ '' th'' @ [CHR 0xE1, CHR 0xBB, CHR 0x9D] @ ''i gian''),
      (5010, ''L'' @ [CHR 0xE1, CHR 0xBB, CHR 0x97] @ ''i h'' @ [CHR 0xC3, CHR 0xA0] @ ''ng '' @ [CHR 0xC4, CHR 0x91, CHR 0xE1, CHR 0xBB, CHR 0xA3] @ ''i''),
      (6001, ''L'' @ [CHR 0xE1, CHR 0xBB, CHR 0x97] @ ''i API b'' @ [CHR 0xC3, CHR 0xAA] @ ''n th'' @ [CHR 0xE1, CHR 0xBB, CHR 0xA9] @ '' ba''),
      (6002, ''L'' @ [CHR 0xE1, CHR 0xBB, CHR 0x97] @ ''i c'' @ [CHR 0xE1, CHR 0xBB, CHR 0x95] @ ''ng thanh to'' @ [CHR 0xC3, CHR 0xA1] @ ''n''),
      (6003, ''L'' @ [CHR 0xE1, CHR 0xBB, CHR 0x97] @ ''i d'' @ [CHR 0xE1, CHR 0xBB, CHR 0x8B] @ ''ch v'' @ [CHR 0xE1, CHR 0xBB, CHR 0xA5] @ '' email''),
      (6004, ''L'' @ [CHR 0xE1, CHR 0xBB, CHR 0x97] @ ''i d'' @ [CHR 0xE1, CHR 0xBB, CHR 0x8B] @ ''ch v'' @ [CHR 0xE1, CHR 0xBB, CHR 0xA5] @ '' SMS''),
      (6005, ''L'' @ [CHR 0xE1, CHR 0xBB, CHR 0x97] @ ''i d'' @ [CHR 0xE1, CHR 0xBB, CHR 0x8B] @ ''ch v'' @ [CHR 0xE1, CHR 0xBB, CHR 0xA5] @ '' l'' @ [CHR 0xC6, CHR 0xB0] @ ''u tr'' @ [CHR 0xE1, CHR 0xBB, CHR 0xAF]),
      (6006, ''L'' @ [CHR 0xE1, CHR 0xBB, CHR 0x97] @ ''i d'' @ [CHR 0xE1, CHR 0xBB, CHR 0x8B] @ ''ch v'' @ [CHR 0xE1, CHR 0xBB, CHR 0xA5] @ '' t'' @ [CHR 0xC3, CHR 0xAC] @ ''m ki'' @ [CHR 0xE1, CHR 0xBA, CHR 0xBF] @ ''m''),
      (6007, ''L'' @ [CHR 0xE1, CHR 0xBB, CHR 0x97] @ ''i d'' @ [CHR 0xE1, CHR 0xBB, CHR 0x8B] @ ''ch v'' @ [CHR 0xE1, CHR 0xBB, CHR 0xA5] @ '' th'' @ [CHR 0xC3, CHR 0xB4] @ ''ng b'' @ [CHR 0xC3, CHR 0xA1] @ ''o''),
      (6008, ''L'' @ [CHR 0xE1, CHR 0xBB, CHR 0x97] @ ''i d'' @ [CHR 0xE1, CHR 0xBB, CHR 0x8B] @ ''ch v'' @ [CHR 0xE1, CHR 0xBB, CHR 0xA5] @ '' ph'' @ [CHR 0xC3, CHR 0xA2] @ ''n t'' @ [CHR 0xC3, CHR 0xAD] @ ''ch''),
      (7001, ''Thao t'' @ [CHR 0xC3, CHR 0xA1] @ ''c kh'' @ [CHR 0xC3, CHR 0xB4] @ ''ng '' @ [CHR 0xC4, CHR 0x91, CHR 0xC6, CHR 0xB0, CHR 0xE1, CHR 0xBB, CHR 0xA3] @ ''c ph'' @ [CHR 0xC3, CHR 0xA9] @ ''p''),
      (7002, ''S'' @ [CHR 0xE1, CHR 0xBB, CHR 0x91] @ '' d'' @ [CHR 0xC6, CHR 0xB0] @ '' kh'' @ [CHR 0xC3, CHR 0xB4] @ ''ng '' @ [CHR 0xC4, CHR 0x91, CHR 0xE1, CHR 0xBB, CHR 0xA7]),
      (7003, ''Giao d'' @ [CHR 0xE1, CHR 0xBB, CHR 0x8B] @ ''ch th'' @ [CHR 0xE1, CHR 0xBA, CHR 0xA5] @ ''t b'' @ [CHR 0xE1, CHR 0xBA, CHR 0xA1] @ ''i''),
      (7004, ''Kh'' @ [CHR 0xC3, CHR 0xB4] @ ''ng th'' @ [CHR 0xE1, CHR 0xBB, CHR 0x83] @ '' h'' @ [CHR 0xE1, CHR 0xBB, CHR 0xA7] @ ''y '' @ [CHR 0xC4, CHR 0x91, CHR 0xC6, CHR 0xA1] @ ''n h'' @ [CHR 0xC3, CHR 0xA0] @ ''ng''),
      (7005, ''Kh'' @ [CHR 0xC3, CHR 0xB4] @ ''ng th'' @ [CHR 0xE1, CHR 0xBB, CHR 0x83] @ '' ch'' @ [CHR 0xE1, CHR 0xBB, CHR 0x89] @ ''nh s'' @ [CHR 0xE1, CHR 0xBB, CHR 0xAD] @ ''a '' @ [CHR 0xC4, CHR 0x91, CHR 0xC6, CHR 0xA1] @ ''n h'' @ [CHR 0xC3, CHR 0xA0] @ ''ng''),
      (7006, ''S'' @ [CHR 0xE1, CHR 0xBA, CHR 0xA3] @ ''n ph'' @ [CHR 0xE1, CHR 0xBA, CHR 0xA9] @ ''m h'' @ [CHR 0xE1, CHR 0xBA, CHR 0xBF] @ ''t h'' @ [CHR 0xC3, CHR 0xA0] @ ''ng''),
      (7007, ''M'' @ [CHR 0xC3, CHR 0xA3] @ '' gi'' @ [CHR 0xE1, CHR 0xBA, CHR 0xA3] @ ''m gi'' @ [CHR 0xC3, CHR 0xA1] @ '' kh'' @ [CHR 0xC3, CHR 0xB4] @ ''ng h'' @ [CHR 0xE1, CHR 0xBB, CHR 0xA3] @ ''p l'' @ [CHR 0xE1, CHR 0xBB, CHR 0x87]),
      (7008, ''M'' @ [CHR 0xC3, CHR 0xA3] @ '' gi'' @ [CHR 0xE1, CHR 0xBA, CHR 0xA3] @ ''m gi'' @ [CHR 0xC3, CHR 0xA1] @ '' '' @ [CHR 0xC4, CHR 0x91, CHR 0xC3, CHR 0xA3] @ '' h'' @ [CHR 0xE1, CHR 0xBA, CHR 0xBF] @ ''t h'' @ [CHR 0xE1, CHR 0xBA, CHR 0xA1] @ ''n''),
      (7009, ''Ch'' @ [CHR 0xC6, CHR 0xB0] @ ''a '' @ [CHR 0xC4, CHR 0x91, CHR 0xE1, CHR 0xBA, CHR 0xA1] @ ''t gi'' @ [CHR 0xC3, CHR 0xA1] @ '' tr'' @ [CHR 0xE1, CHR 0xBB, CHR 0x8B] @ '' '' @ [CHR 0xC4, CHR 0x91, CHR 0xC6, CHR 0xA1] @ ''n h'' @ [CHR 0xC3, CHR 0xA0] @ ''ng t'' @ [CHR 0xE1, CHR 0xBB, CHR 0x91] @ ''i thi'' @ [CHR 0xE1, CHR 0xBB, CHR 0x83] @ ''u''),
      (7010, ''V'' @ [CHR 0xC6, CHR 0xB0, CHR 0xE1, CHR 0xBB, CHR 0xA3] @ ''t qu'' @ [CHR 0xC3, CHR 0xA1] @ '' s'' @ [CHR 0xE1, CHR 0xBB, CHR 0x91] @ '' l'' @ [CHR 0xC6, CHR 0xB0, CHR 0xE1, CHR 0xBB, CHR 0xA3] @ ''ng t'' @ [CHR 0xE1, CHR 0xBB, CHR 0x91] @ ''i '' @ [CHR 0xC4, CHR 0x91] @ ''a''),
      (7011, ''Y'' @ [CHR 0xC3, CHR 0xAA] @ ''u c'' @ [CHR 0xE1, CHR 0xBA, CHR 0xA7] @ ''u '' @ [CHR 0xC4, CHR 0x91, CHR 0xC4, CHR 0x83] @ ''ng k'' @ [CHR 0xC3, CHR 0xBD] @ '' g'' @ [CHR 0xC3, CHR 0xB3] @ ''i d'' @ [CHR 0xE1, CHR 0xBB, CHR 0x8B] @ ''ch v'' @ [CHR 0xE1, CHR 0xBB, CHR 0xA5]),
      (7012, ''G'' @ [CHR 0xC3, CHR 0xB3] @ ''i '' @ [CHR 0xC4, CHR 0x91, CHR 0xC4, CHR 0x83] @ ''ng k'' @ [CHR 0xC3, CHR 0xBD] @ '' '' @ [CHR 0xC4, CHR 0x91, CHR 0xC3, CHR 0xA3] @ '' h'' @ [CHR 0xE1, CHR 0xBA, CHR 0xBF] @ ''t h'' @ [CHR 0xE1, CHR 0xBA, CHR 0xA1] @ ''n''),
      (7013, ''T'' @ [CHR 0xC3, CHR 0xAD] @ ''nh n'' @ [CHR 0xC4, CHR 0x83] @ ''ng kh'' @ [CHR 0xC3, CHR 0xB4] @ ''ng kh'' @ [CHR 0xE1, CHR 0xBA, CHR 0xA3] @ '' d'' @ [CHR 0xE1, CHR 0xBB, CHR 0xA5] @ ''ng''),
      (7014, [CHR 0xC4, CHR 0x90, CHR 0xC3, CHR 0xA3] @ '' v'' @ [CHR 0xC6, CHR 0xB0, CHR 0xE1, CHR 0xBB, CHR 0xA3] @ ''t qu'' @ [CHR 0xC3, CHR 0xA1] @ '' h'' @ [CHR 0xE1, CHR 0xBA, CHR 0xA1] @ ''n m'' @ [CHR 0xE1, CHR 0xBB, CHR 0xA9] @ ''c''),
      (7015, [CHR 0xC4, CHR 0x90, CHR 0xC3, CHR 0xA3] @ '' v'' @ [CHR 0xC6, CHR 0xB0, CHR 0xE1, CHR 0xBB, CHR 0xA3] @ ''t qu'' @ [CHR 0xC3, CHR 0xA1] @ '' gi'' @ [CHR 0xE1, CHR 0xBB, CHR 0x9B] @ ''i h'' @ [CHR 0xE1, CHR 0xBA, CHR 0xA1] @ ''n t'' @ [CHR 0xE1, CHR 0xBA, CHR 0xA7] @ ''n su'' @ [CHR 0xE1, CHR 0xBA, CHR 0xA5] @ ''t'')
     ]"

definition builtInMessages :: "Locale \<rightharpoonup> MessageMap" where
  "builtInMessages = [''en'' \<mapsto> enMessages, ''vi'' \<mapsto> viMessages]"

definition DEFAULT_UNKNOWN_MESSAGE :: "Locale \<rightharpoonup> string" where
  "DEFAULT_UNKNOWN_MESSAGE =
     [''en'' \<mapsto> ''Unknown error'',
      ''vi'' \<mapsto> ''L'' @ [CHR 0xE1, CHR 0xBB, CHR 0x97] @ ''i kh'' @ [CHR 0xC3, CHR 0xB4] @ ''ng x''
          @ [CHR 0xC3, CHR 0xA1] @ ''c '' @ [CHR 0xC4, CHR 0x91, CHR 0xE1, CHR 0xBB, CHR 0x8B] @ ''nh'']"

text \<open>\<open>Partial<I18nConfig>\<close>: every field may be missing.\<close>

record I18nConfig =
  cfg_locale :: "Locale option"
  cfg_fallbackLocale :: "Locale option"
  cfg_customMessages :: "(Locale \<rightharpoonup> MessageMap) option"

text \<open>
  The provider's private fields. The field \<open>locale\<close> of the source is \<open>currentLocale\<close>
  here; \<open>customMessages\<close> is the \<open>Map<Locale, MessageMap>\<close> of the overrides.
\<close>

record BusinessMessageProvider =
  currentLocale :: Locale
  fallbackLocale :: Locale
  customMessages :: "Locale \<rightharpoonup> MessageMap"

text \<open>
  The constructor: both locales default to \<open>'en'\<close>, and every entry of
  \<open>config.customMessages\<close> that has a table is stored.
\<close>

definition BusinessMessageProvider_new :: "I18nConfig option \<Rightarrow> BusinessMessageProvider" where
  "BusinessMessageProvider_new config =
     \<lparr> currentLocale =
         (case config of None \<Rightarrow> ''en''
          | Some c \<Rightarrow> (case cfg_locale c of None \<Rightarrow> ''en'' | Some l \<Rightarrow> l)),
       fallbackLocale =
         (case config of None \<Rightarrow> ''en''
          | Some c \<Rightarrow> (case cfg_fallbackLocale c of None \<Rightarrow> ''en'' | Some l \<Rightarrow> l)),
       customMessages =
         (case config of None \<Rightarrow> Map.empty
          | Some c \<Rightarrow> (case cfg_customMessages c of None \<Rightarrow> Map.empty | Some m \<Rightarrow> m)) \<rparr>"

definition setLocale :: "BusinessMessageProvider \<Rightarrow> Locale \<Rightarrow> BusinessMessageProvider" where
  "setLocale this l = this\<lparr>currentLocale := l\<rparr>"

definition getLocale :: "BusinessMessageProvider \<Rightarrow> Locale" where
  "getLocale this = currentLocale this"

text \<open>
  \<open>registerMessages\<close>: \<open>existing = customMessages.get(locale) ?? {}\<close>, then the spread
  \<open>{ ...existing, ...messages }\<close> is stored; in a spread the later object wins per key.
\<close>

definition registerMessages ::
  "BusinessMessageProvider \<Rightarrow> Locale \<Rightarrow> MessageMap \<Rightarrow> BusinessMessageProvider" where
  "registerMessages this l messages =
     (let existing = (case customMessages this l of None \<Rightarrow> Map.empty | Some m \<Rightarrow> m)
      in this\<lparr>customMessages := (customMessages this)(l \<mapsto> existing ++ messages)\<rparr>)"

text \<open>\<open>tables[locale]?.[code]\<close>: \<open>undefined\<close> (here \<open>None\<close>) without a table or without an entry.\<close>

definition lookupMessage :: "(Locale \<rightharpoonup> MessageMap) \<Rightarrow> Locale \<Rightarrow> int \<Rightarrow> string option" where
  "lookupMessage tables l code = (case tables l of None \<Rightarrow> None | Some m \<Rightarrow> m code)"

text \<open>\<open>if (m) { return m; }\<close> followed by the rest: a string is truthy when it is not empty.\<close>

definition returnIfTruthy :: "string option \<Rightarrow> string \<Rightarrow> string" where
  "returnIfTruthy m rest = (case m of None \<Rightarrow> rest | Some s \<Rightarrow> if s \<noteq> [] then s else rest)"

text \<open>
  \<open>getMessage\<close>: steps 1 and 2 on the target locale, step 3 on the fallback locale when
  it is another one, step 4 the sentinel \<open>DEFAULT_UNKNOWN_MESSAGE[targetLocale] ??
  DEFAULT_UNKNOWN_MESSAGE.en\<close> (the table has the key \<open>en\<close>, so the last \<open>None\<close> branch
  is never taken). Step 4 is that of the source for a target locale outside
  \<open>inheritedPropertyNames\<close>; for one of these names the source returns the inherited
  member, which is not a string.
\<close>

definition getMessage :: "BusinessMessageProvider \<Rightarrow> int \<Rightarrow> Locale option \<Rightarrow> string" where
  "getMessage this code loc =
     (let targetLocale = (case loc of None \<Rightarrow> currentLocale this | Some l \<Rightarrow> l) in
      returnIfTruthy (lookupMessage (customMessages this) targetLocale code)
     (returnIfTruthy (lookupMessage builtInMessages targetLocale code)
     (let unknown =
        (case DEFAULT_UNKNOWN_MESSAGE targetLocale of
           Some s \<Rightarrow> s
         | None \<Rightarrow> (case DEFAULT_UNKNOWN_MESSAGE ''en'' of Some s \<Rightarrow> s | None \<Rightarrow> []))
      in if targetLocale \<noteq> fallbackLocale this
         then returnIfTruthy (lookupMessage (customMessages this) (fallbackLocale this) code)
             (returnIfTruthy (lookupMessage builtInMessages (fallbackLocale this) code) unknown)
         else unknown)))"

text \<open>\<open>hasMessage\<close> compares both lookups with \<open>undefined\<close>.\<close>

definition hasMessage :: "BusinessMessageProvider \<Rightarrow> int \<Rightarrow> Locale option \<Rightarrow> bool" where
  "hasMessage this code loc =
     (let targetLocale = (case loc of None \<Rightarrow> currentLocale this | Some l \<Rightarrow> l) in
      lookupMessage (customMessages this) targetLocale code \<noteq> None \<or>
      lookupMessage builtInMessages targetLocale code \<noteq> None)"

section \<open>HTTP status codes used by the envelope (constants/http-status.ts)\<close>

definition HttpStatus_OK :: int where "HttpStatus_OK = 200"
definition HttpStatus_CREATED :: int where "HttpStatus_CREATED = 201"
definition HttpStatus_NO_CONTENT :: int where "HttpStatus_NO_CONTENT = 204"
definition HttpStatus_BAD_REQUEST :: int where "HttpStatus_BAD_REQUEST = 400"
definition HttpStatus_UNAUTHORIZED :: int where "HttpStatus_UNAUTHORIZED = 401"
definition HttpStatus_FORBIDDEN :: int where "HttpStatus_FORBIDDEN = 403"
definition HttpStatus_NOT_FOUND :: int where "HttpStatus_NOT_FOUND = 404"
definition HttpStatus_CONFLICT :: int where "HttpStatus_CONFLICT = 409"
definition HttpStatus_UNPROCESSABLE_ENTITY :: int where "HttpStatus_UNPROCESSABLE_ENTITY = 422"
definition HttpStatus_TOO_MANY_REQUESTS :: int where "HttpStatus_TOO_MANY_REQUESTS = 429"
definition HttpStatus_INTERNAL_SERVER_ERROR :: int where "HttpStatus_INTERNAL_SERVER_ERROR = 500"

section \<open>The response envelope (types.ts, response/api-response.ts)\<close>

text \<open>
  \<open>PaginationMeta\<close> has six optional known keys and an index signature
  \<open>[key: string]: unknown\<close>: an object from keys to values. An optional field of an
  interface or a class is an \<open>option\<close>; \<open>None\<close> is \<open>undefined\<close>.
\<close>

type_synonym PaginationMeta = "string \<rightharpoonup> jsvalue"

type_synonym Details = "string \<rightharpoonup> jsvalue"

record ErrorDetails =
  err_code :: "int option"
  err_details :: "Details option"
  err_stack :: "string option"

record 'a SuccessParams =
  sp_data :: "'a option"
  sp_message :: "string option"
  sp_statusCode :: "int option"
  sp_meta :: "PaginationMeta option"

record 'a PaginatedParams =
  pg_data :: "'a list"
  pg_message :: "string option"
  pg_statusCode :: "int option"
  pg_page :: int
  pg_limit :: int
  pg_total :: int
  pg_meta :: "PaginationMeta option"

record ErrorParams =
  ep_message :: "string option"
  ep_code :: "int option"
  ep_details :: "Details option"
  ep_statusCode :: "int option"

record 'a ApiResponseParams =
  p_success :: bool
  p_data :: "'a option"
  p_message :: "string option"
  p_statusCode :: "int option"
  p_meta :: "PaginationMeta option"
  p_error :: "ErrorDetails option"

text \<open>The fields of the class \<open>ApiResponse<T>\<close>.\<close>

record 'a ApiResponse =
  success :: bool
  data :: "'a option"
  message :: "string option"
  statusCode :: "int option"
  meta :: "PaginationMeta option"
  error :: "ErrorDetails option"

text \<open>The constructor assigns the six fields from the parameters, one by one.\<close>

definition ApiResponse_new :: "'a ApiResponseParams \<Rightarrow> 'a ApiResponse" where
  "ApiResponse_new params =
     \<lparr> success = p_success params,
       data = p_data params,
       message = p_message params,
       statusCode = p_statusCode params,
       meta = p_meta params,
       error = p_error params \<rparr>"

text \<open>\<open>a ?? b\<close>: the default \<open>b\<close> replaces an absent \<open>a\<close>.\<close>

definition orDefault :: "'v option \<Rightarrow> 'v \<Rightarrow> 'v" where
  "orDefault a b = (case a of None \<Rightarrow> b | Some v \<Rightarrow> v)"

text \<open>The object \<open>{}\<close> that \<open>success\<close> and \<open>error\<close> take when called without parameters.\<close>

definition emptySuccessParams :: "'a SuccessParams" where
  "emptySuccessParams =
     \<lparr> sp_data = None, sp_message = None, sp_statusCode = None, sp_meta = None \<rparr>"

definition emptyErrorParams :: ErrorParams where
  "emptyErrorParams =
     \<lparr> ep_message = None, ep_code = None, ep_details = None, ep_statusCode = None \<rparr>"

definition ApiResponse_success :: "'a SuccessParams option \<Rightarrow> 'a ApiResponse" where
  "ApiResponse_success arg =
     (let params = orDefault arg emptySuccessParams in
      ApiResponse_new
        \<lparr> p_success = True,
          p_data = sp_data params,
          p_message = Some (orDefault (sp_message params) ''Success''),
          p_statusCode = Some (orDefault (sp_statusCode params) HttpStatus_OK),
          p_meta = sp_meta params,
          p_error = None \<rparr>)"

definition ApiResponse_error :: "ErrorParams option \<Rightarrow> 'a ApiResponse" where
  "ApiResponse_error arg =
     (let params = orDefault arg emptyErrorParams in
      ApiResponse_new
        \<lparr> p_success = False,
          p_data = None,
          p_message = Some (orDefault (ep_message params) ''Error''),
          p_statusCode = Some (orDefault (ep_statusCode params) HttpStatus_INTERNAL_SERVER_ERROR),
          p_meta = None,
          p_error = Some \<lparr> err_code = Some (orDefault (ep_code params) BusinessCode_INTERNAL_ERROR),
                           err_details = ep_details params,
                           err_stack = None \<rparr> \<rparr>)"

text \<open>
  \<open>paginated\<close>: the object literal of the six computed fields, then the spread
  \<open>...params.meta\<close>, which comes last and so overwrites a computed field of the same key
  (spreading \<open>undefined\<close> adds nothing).
\<close>

definition ApiResponse_paginated :: "'a PaginatedParams \<Rightarrow> 'a list ApiResponse" where
  "ApiResponse_paginated params =
     (let totalPages = Math_ceil_div (pg_total params) (pg_limit params) in
      ApiResponse_new
        \<lparr> p_success = True,
          p_data = Some (pg_data params),
          p_message = Some (orDefault (pg_message params) ''Success''),
          p_statusCode = Some (orDefault (pg_statusCode params) HttpStatus_OK),
          p_meta = Some
            ([''page'' \<mapsto> JNumber (Finite (pg_page params)),
              ''limit'' \<mapsto> JNumber (Finite (pg_limit params)),
              ''total'' \<mapsto> JNumber (Finite (pg_total params)),
              ''totalPages'' \<mapsto> JNumber totalPages,
              ''hasNextPage'' \<mapsto> JBoolean (num_less (Finite (pg_page params)) totalPages),
              ''hasPreviousPage'' \<mapsto> JBoolean (pg_page params > 1)]
             ++ orDefault (pg_meta params) Map.empty),
          p_error = None \<rparr>)"

definition ApiResponse_created :: "'a \<Rightarrow> string option \<Rightarrow> 'a ApiResponse" where
  "ApiResponse_created d msg =
     ApiResponse_success
       (Some \<lparr> sp_data = Some d,
               sp_message = Some (orDefault msg ''Resource created successfully''),
               sp_statusCode = Some HttpStatus_CREATED,
               sp_meta = None \<rparr>)"

definition ApiResponse_noContent :: "string option \<Rightarrow> 'a ApiResponse" where
  "ApiResponse_noContent msg =
     ApiResponse_new
       \<lparr> p_success = True,
         p_data = None,
         p_message = Some (orDefault msg ''No content''),
         p_statusCode = Some HttpStatus_NO_CONTENT,
         p_meta = None,
         p_error = None \<rparr>"

definition ApiResponse_badRequest :: "string option \<Rightarrow> Details option \<Rightarrow> 'a ApiResponse" where
  "ApiResponse_badRequest msg dets =
     ApiResponse_error
       (Some \<lparr> ep_message = Some (orDefault msg ''Bad request''),
               ep_code = Some BusinessCode_INVALID_INPUT,
               ep_details = dets,
               ep_statusCode = Some HttpStatus_BAD_REQUEST \<rparr>)"

definition ApiResponse_unauthorized :: "string option \<Rightarrow> int option \<Rightarrow> 'a ApiResponse" where
  "ApiResponse_unauthorized msg c =
     ApiResponse_error
       (Some \<lparr> ep_message = Some (orDefault msg ''Unauthorized''),
               ep_code = Some (orDefault c BusinessCode_AUTH_FAILED),
               ep_details = None,
               ep_statusCode = Some HttpStatus_UNAUTHORIZED \<rparr>)"

definition ApiResponse_forbidden :: "string option \<Rightarrow> 'a ApiResponse" where
  "ApiResponse_forbidden msg =
     ApiResponse_error
       (Some \<lparr> ep_message = Some (orDefault msg ''Forbidden''),
               ep_code = Some BusinessCode_PERMISSION_DENIED,
               ep_details = None,
               ep_statusCode = Some HttpStatus_FORBIDDEN \<rparr>)"

definition ApiResponse_notFound :: "string option \<Rightarrow> int option \<Rightarrow> 'a ApiResponse" where
  "ApiResponse_notFound msg c =
     ApiResponse_error
       (Some \<lparr> ep_message = Some (orDefault msg ''Not found''),
               ep_code = Some (orDefault c BusinessCode_RESOURCE_NOT_FOUND),
               ep_details = None,
               ep_statusCode = Some HttpStatus_NOT_FOUND \<rparr>)"

definition ApiResponse_conflict :: "string option \<Rightarrow> int option \<Rightarrow> 'a ApiResponse" where
  "ApiResponse_conflict msg c =
     ApiResponse_error
       (Some \<lparr> ep_message = Some (orDefault msg ''Conflict''),
               ep_code = Some (orDefault c BusinessCode_RESOURCE_CONFLICT),
               ep_details = None,
               ep_statusCode = Some HttpStatus_CONFLICT \<rparr>)"

definition ApiResponse_validationError :: "Details \<Rightarrow> string option \<Rightarrow> 'a ApiResponse" where
  "ApiResponse_validationError dets msg =
     ApiResponse_error
       (Some \<lparr> ep_message = Some (orDefault msg ''Validation failed''),
               ep_code = Some BusinessCode_VALIDATION_ERROR,
               ep_details = Some dets,
               ep_statusCode = Some HttpStatus_UNPROCESSABLE_ENTITY \<rparr>)"

definition ApiResponse_tooManyRequests :: "string option \<Rightarrow> 'a ApiResponse" where
  "ApiResponse_tooManyRequests msg =
     ApiResponse_error
       (Some \<lparr> ep_message = Some (orDefault msg ''Too many requests''),
               ep_code = Some BusinessCode_RATE_LIMIT_EXCEEDED,
               ep_details = None,
               ep_statusCode = Some HttpStatus_TOO_MANY_REQUESTS \<rparr>)"

definition ApiResponse_internalError :: "string option \<Rightarrow> 'a ApiResponse" where
  "ApiResponse_internalError msg =
     ApiResponse_error
       (Some \<lparr> ep_message = Some (orDefault msg ''Internal server error''),
               ep_code = Some BusinessCode_INTERNAL_ERROR,
               ep_details = None,
               ep_statusCode = Some HttpStatus_INTERNAL_SERVER_ERROR \<rparr>)"

text \<open>
  The plain object that \<open>toJSON\<close> builds: a key is in it or not, and the value of a key
  that is in it is one of the field values, \<open>undefined\<close> among them.
\<close>

datatype 'a jsfield =
    FUndefined
  | FBoolean bool
  | FData 'a
  | FString string
  | FNumber int
  | FMeta PaginationMeta
  | FError ErrorDetails

type_synonym 'a PlainObject = "string \<rightharpoonup> 'a jsfield"

text \<open>\<open>if (this.f !== undefined) json.f = this.f\<close>: the key is set only for a field that is there.\<close>

definition setIfDefined ::
  "'a PlainObject \<Rightarrow> string \<Rightarrow> 'v option \<Rightarrow> ('v \<Rightarrow> 'a jsfield) \<Rightarrow> 'a PlainObject" where
  "setIfDefined json k field wrap = (case field of None \<Rightarrow> json | Some v \<Rightarrow> json(k \<mapsto> wrap v))"

definition toJSON :: "'a ApiResponse \<Rightarrow> 'a PlainObject" where
  "toJSON this =
     (let json = [''success'' \<mapsto> FBoolean (success this)];
          json = setIfDefined json ''data'' (data this) FData;
          json = setIfDefined json ''message'' (message this) FString;
          json = setIfDefined json ''statusCode'' (statusCode this) FNumber;
          json = setIfDefined json ''meta'' (meta this) FMeta;
          json = setIfDefined json ''error'' (error this) FError
      in json)"

text \<open>
  The result of \<open>toJSON\<close> has the type \<open>ApiResponseParams<T>\<close>, so that it can be given to
  the constructor again. Reading the six properties of a plain object at that type: a
  missing key and a key holding \<open>undefined\<close> both read as \<open>undefined\<close>.
\<close>

definition asParams :: "'a PlainObject \<Rightarrow> 'a ApiResponseParams" where
  "asParams json =
     \<lparr> p_success = (case json ''success'' of Some (FBoolean b) \<Rightarrow> b | _ \<Rightarrow> False),
       p_data = (case json ''data'' of Some (FData d) \<Rightarrow> Some d | _ \<Rightarrow> None),
       p_message = (case json ''message'' of Some (FString m) \<Rightarrow> Some m | _ \<Rightarrow> None),
       p_statusCode = (case json ''statusCode'' of Some (FNumber n) \<Rightarrow> Some n | _ \<Rightarrow> None),
       p_meta = (case json ''meta'' of Some (FMeta m) \<Rightarrow> Some m | _ \<Rightarrow> None),
       p_error = (case json ''error'' of Some (FError e) \<Rightarrow> Some e | _ \<Rightarrow> None) \<rparr>"

text \<open>
  The invariant of the envelope: \<open>success\<close> is true exactly when \<open>error\<close> is absent, and
  a failure carries no \<open>data\<close>.
\<close>

definition consistent :: "'a ApiResponse \<Rightarrow> bool" where
  "consistent r = ((success r \<longleftrightarrow> error r = None) \<and> (\<not> success r \<longrightarrow> data r = None))"

section \<open>Pagination of a request (nextjs/helpers.ts)\<close>

text \<open>
  \<open>parseInt(s, 10)\<close>: leading white space is skipped, then an optional sign, then the
  longest run of decimal digits is read; without a digit the result is \<open>NaN\<close>. Text after
  the digits is ignored. White space is the ASCII white space here, and the value of the
  digits is exact (the source rounds a value beyond \<open>2^53\<close> to a double).
\<close>

definition isWhiteSpace :: "char \<Rightarrow> bool" where
  "isWhiteSpace c = (c \<in> set [CHR '' '', CHR 0x09, CHR 0x0A, CHR 0x0B, CHR 0x0C, CHR 0x0D])"

definition isDigit :: "char \<Rightarrow> bool" where
  "isDigit c = (48 \<le> (of_char c :: nat) \<and> (of_char c :: nat) \<le> 57)"

definition digitValue :: "char \<Rightarrow> int" where
  "digitValue c = int (of_char c) - 48"

definition digitsValue :: "string \<Rightarrow> int" where
  "digitsValue ds = foldl (\<lambda>acc c. 10 * acc + digitValue c) 0 ds"

definition parseInt :: "string \<Rightarrow> number" where
  "parseInt s =
     (let t = dropWhile isWhiteSpace s;
          sign = (case t of c # _ \<Rightarrow> if c = CHR ''-'' then - 1 else 1 | [] \<Rightarrow> 1);
          u = (case t of c # r \<Rightarrow> if c = CHR ''-'' \<or> c = CHR ''+'' then r else t | [] \<Rightarrow> t);
          ds = takeWhile isDigit u
      in if ds = [] then NaN else Finite (sign * digitsValue ds))"

text \<open>
  \<open>String(n)\<close> of an integer: its decimal digits, after a minus sign when negative
  (the form of the source for a magnitude below \<open>10^21\<close>).
\<close>

fun natDigits :: "nat \<Rightarrow> string" where
  "natDigits n =
     (if n < 10 then [char_of (48 + n)]
      else natDigits (n div 10) @ [char_of (48 + n mod 10)])"

declare natDigits.simps [simp del]

definition String_of :: "int \<Rightarrow> string" where
  "String_of n = (if n < 0 then CHR ''-'' # natDigits (nat (- n)) else natDigits (nat n))"

text \<open>
  The options of \<open>parsePagination\<close>, each optional. The request is read only through
  \<open>url.searchParams.get\<close>, which gives the decoded first value of a parameter or \<open>null\<close>;
  the model takes the search parameters as that lookup.
\<close>

record PaginationOptions =
  defaultPage :: "int option"
  defaultLimit :: "int option"
  maxLimit :: "int option"

record Pagination =
  pagination_page :: number
  pagination_limit :: number

text \<open>\<open>get(name) || String(d)\<close>: \<open>null\<close> and the empty string are falsy.\<close>

definition paramOr :: "string option \<Rightarrow> int \<Rightarrow> string" where
  "paramOr v d = (case v of None \<Rightarrow> String_of d | Some s \<Rightarrow> if s \<noteq> [] then s else String_of d)"

definition parsePagination ::
  "(string \<rightharpoonup> string) \<Rightarrow> PaginationOptions option \<Rightarrow> Pagination" where
  "parsePagination searchParams options =
     (let defaultPage' = orDefault (case options of None \<Rightarrow> None | Some opts \<Rightarrow> defaultPage opts) 1;
          defaultLimit' = orDefault (case options of None \<Rightarrow> None | Some opts \<Rightarrow> defaultLimit opts) 10;
          maxLimit' = orDefault (case options of None \<Rightarrow> None | Some opts \<Rightarrow> maxLimit opts) 100;
          page = Math_max 1 (parseInt (paramOr (searchParams ''page'') defaultPage'));
          limit = Math_min maxLimit'
                    (Math_max 1 (parseInt (paramOr (searchParams ''limit'') defaultLimit')))
      in \<lparr> pagination_page = page, pagination_limit = limit \<rparr>)"

section \<open>Definitions that state the properties\<close>

text \<open>The three fields of the pagination metadata that are derived from page, limit and total.\<close>

definition derivedKeys :: "string list" where
  "derivedKeys = [''totalPages'', ''hasNextPage'', ''hasPreviousPage'']"

text \<open>Reading a key of the metadata of an envelope: \<open>r.meta?.[k]\<close>.\<close>

definition metaField :: "'a ApiResponse \<Rightarrow> string \<Rightarrow> jsvalue option" where
  "metaField r k = (case meta r of None \<Rightarrow> None | Some m \<Rightarrow> m k)"

definition derivedFields :: "'a ApiResponse \<Rightarrow> jsvalue option list" where
  "derivedFields r = map (metaField r) derivedKeys"

text \<open>The extra metadata of a call to \<open>paginated\<close>: the keys of \<open>params.meta\<close>, none when it is absent.\<close>

definition extraMeta :: "'a PaginatedParams \<Rightarrow> PaginationMeta" where
  "extraMeta params = orDefault (pg_meta params) Map.empty"

text \<open>
  The steps of the resolution, in order: those of the requested locale come first, those
  of the fallback locale follow only when it differs from the requested locale. A step
  yields a message (\<open>isHit\<close>) when its entry is a string that is not empty, which is the
  test of the source (\<open>if (m)\<close>).
\<close>

definition targetLocaleOf :: "BusinessMessageProvider \<Rightarrow> Locale option \<Rightarrow> Locale" where
  "targetLocaleOf p loc = orDefault loc (currentLocale p)"

definition isHit :: "string option \<Rightarrow> bool" where
  "isHit m = (case m of None \<Rightarrow> False | Some s \<Rightarrow> s \<noteq> [])"

definition requestedSteps :: "BusinessMessageProvider \<Rightarrow> int \<Rightarrow> Locale \<Rightarrow> string option list" where
  "requestedSteps p code l =
     [lookupMessage (customMessages p) l code, lookupMessage builtInMessages l code]"

definition fallbackSteps :: "BusinessMessageProvider \<Rightarrow> int \<Rightarrow> Locale \<Rightarrow> string option list" where
  "fallbackSteps p code l =
     (if fallbackLocale p \<noteq> l
      then [lookupMessage (customMessages p) (fallbackLocale p) code,
            lookupMessage builtInMessages (fallbackLocale p) code]
      else [])"

definition unknownSentinel :: "Locale \<Rightarrow> string" where
  "unknownSentinel l =
     (case DEFAULT_UNKNOWN_MESSAGE l of Some s \<Rightarrow> s | None \<Rightarrow> ''Unknown error'')"

text \<open>
  The resolution as the specification words it: the first step whose table has an entry
  for the code decides, whatever the entry is; without an entry the sentinel of the
  requested locale, or the one of \<open>'en'\<close>.
\<close>

definition resolve_spec :: "BusinessMessageProvider \<Rightarrow> int \<Rightarrow> Locale option \<Rightarrow> string" where
  "resolve_spec p code loc =
     (let l = targetLocaleOf p loc in
      case List.find (\<lambda>m. m \<noteq> None) (requestedSteps p code l @ fallbackSteps p code l) of
        Some (Some s) \<Rightarrow> s
      | _ \<Rightarrow> unknownSentinel l)"

text \<open>
  The same order with the empty string passed over: the first step whose entry is a
  string that is not empty decides.
\<close>

definition resolve_first_nonempty ::
  "BusinessMessageProvider \<Rightarrow> int \<Rightarrow> Locale option \<Rightarrow> string" where
  "resolve_first_nonempty p code loc =
     (let l = targetLocaleOf p loc in
      case List.find isHit (requestedSteps p code l @ fallbackSteps p code l) of
        Some (Some s) \<Rightarrow> s
      | _ \<Rightarrow> unknownSentinel l)"

text \<open>Step 1 or step 2 of the resolution succeeds: the requested locale itself yields the message.\<close>

definition firstOrSecondStepSucceeds ::
  "BusinessMessageProvider \<Rightarrow> int \<Rightarrow> Locale option \<Rightarrow> bool" where
  "firstOrSecondStepSucceeds p code loc =
     list_ex isHit (requestedSteps p code (targetLocaleOf p loc))"

text \<open>The requested locale has an entry for the code, in its overrides or built in.\<close>

definition hasEntry :: "BusinessMessageProvider \<Rightarrow> int \<Rightarrow> Locale option \<Rightarrow> bool" where
  "hasEntry p code loc =
     list_ex (\<lambda>m. m \<noteq> None) (requestedSteps p code (targetLocaleOf p loc))"

text \<open>
  A query parameter that the clamps can work on: absent or empty (the default is then
  used), or a text from which \<open>parseInt\<close> reads a number.
\<close>

definition numericParam :: "string option \<Rightarrow> bool" where
  "numericParam v = (case v of None \<Rightarrow> True | Some s \<Rightarrow> s = [] \<or> parseInt s \<noteq> NaN)"

text \<open>The maximum of the limit that is in force: \<open>options?.maxLimit ?? 100\<close>.\<close>

definition maxLimitOf :: "PaginationOptions option \<Rightarrow> int" where
  "maxLimitOf options = orDefault (case options of None \<Rightarrow> None | Some opts \<Rightarrow> maxLimit opts) 100"

section \<open>Business codes: the range predicates\<close>

text \<open>
  C5. For every integer code, exactly one of the eight range predicates is true when the
  code lies in one of the eight documented ranges, and none is true otherwise. Each
  predicate is the range test alone: it classifies a code that has no message too, such
  as 1999.
\<close>

theorem range_predicates_partition:
  "length (filter (\<lambda>p. p c) rangePredicates) = (if inDocumentedRange c then 1 else 0)
   \<and> isSuccessCode c = (0 \<le> c \<and> c < 100)
   \<and> isAuthError c = (1000 \<le> c \<and> c < 2000)
   \<and> isUserError c = (2000 \<le> c \<and> c < 3000)
   \<and> isValidationError c = (3000 \<le> c \<and> c < 4000)
   \<and> isResourceError c = (4000 \<le> c \<and> c < 5000)
   \<and> isSystemError c = (5000 \<le> c \<and> c < 6000)
   \<and> isExternalError c = (6000 \<le> c \<and> c < 7000)
   \<and> isBusinessLogicError c = (7000 \<le> c \<and> c < 8000)
   \<and> isAuthError 1999 \<and> businessCodeMessages 1999 = None"
  by (simp add: rangePredicates_def inDocumentedRange_def documentedRanges_def
      isSuccessCode_def isAuthError_def isUserError_def isValidationError_def
      isResourceError_def isSystemError_def isExternalError_def isBusinessLogicError_def
      businessCodeMessages_def)

section \<open>The response envelope\<close>

lemmas factory_defs = ApiResponse_new_def ApiResponse_success_def ApiResponse_error_def
  ApiResponse_paginated_def ApiResponse_created_def ApiResponse_noContent_def
  ApiResponse_badRequest_def ApiResponse_unauthorized_def ApiResponse_forbidden_def
  ApiResponse_notFound_def ApiResponse_conflict_def ApiResponse_validationError_def
  ApiResponse_tooManyRequests_def ApiResponse_internalError_def

text \<open>
  C2. Every envelope that a factory operation builds is consistent: \<open>success\<close> is true
  exactly when \<open>error\<close> is absent, and a failure has no \<open>data\<close>. The factories are
  \<open>success\<close>, \<open>error\<close>, \<open>paginated\<close>, \<open>created\<close>, \<open>noContent\<close> and the eight named
  error shorthands, for every argument.
\<close>

theorem factories_consistent:
  "consistent (ApiResponse_success sp :: 'a ApiResponse)
   \<and> consistent (ApiResponse_error ep :: 'a ApiResponse)
   \<and> consistent (ApiResponse_paginated pp :: 'a list ApiResponse)
   \<and> consistent (ApiResponse_created d m1 :: 'a ApiResponse)
   \<and> consistent (ApiResponse_noContent m2 :: 'a ApiResponse)
   \<and> consistent (ApiResponse_badRequest m3 dets :: 'a ApiResponse)
   \<and> consistent (ApiResponse_unauthorized m4 c4 :: 'a ApiResponse)
   \<and> consistent (ApiResponse_forbidden m5 :: 'a ApiResponse)
   \<and> consistent (ApiResponse_notFound m6 c6 :: 'a ApiResponse)
   \<and> consistent (ApiResponse_conflict m7 c7 :: 'a ApiResponse)
   \<and> consistent (ApiResponse_validationError dets8 m8 :: 'a ApiResponse)
   \<and> consistent (ApiResponse_tooManyRequests m9 :: 'a ApiResponse)
   \<and> consistent (ApiResponse_internalError m10 :: 'a ApiResponse)"
  by (simp add: consistent_def factory_defs Let_def)

text \<open>
  The invariant at two concrete envelopes: a success with data 7 has no error, and
  \<open>notFound()\<close> is a failure without data whose error carries the code 4001.
\<close>

theorem factories_consistent_witness:
  "consistent (ApiResponse_success
      (Some \<lparr>sp_data = Some (7::int), sp_message = None, sp_statusCode = None, sp_meta = None\<rparr>))
   \<and> success (ApiResponse_success
      (Some \<lparr>sp_data = Some (7::int), sp_message = None, sp_statusCode = None, sp_meta = None\<rparr>))
   \<and> error (ApiResponse_success
      (Some \<lparr>sp_data = Some (7::int), sp_message = None, sp_statusCode = None, sp_meta = None\<rparr>))
       = None
   \<and> consistent (ApiResponse_notFound None None :: int ApiResponse)
   \<and> \<not> success (ApiResponse_notFound None None :: int ApiResponse)
   \<and> data (ApiResponse_notFound None None :: int ApiResponse) = None
   \<and> error (ApiResponse_notFound None None :: int ApiResponse)
       = Some \<lparr>err_code = Some 4001, err_details = None, err_stack = None\<rparr>"
  using factories_consistent [where 'a = int,
      of "Some \<lparr>sp_data = Some (7::int), sp_message = None, sp_statusCode = None, sp_meta = None\<rparr>"
         None
         "\<lparr>pg_data = [], pg_message = None, pg_statusCode = None,
           pg_page = 1, pg_limit = 1, pg_total = 0, pg_meta = None\<rparr>"
         0 None None None None None None None None None None None Map.empty None None None]
  by (simp add: factory_defs orDefault_def BusinessCode_RESOURCE_NOT_FOUND_def)

text \<open>
  C10. The constructor copies the six parameter fields as they are and checks nothing.
  So there is a parameter object, with \<open>success = true\<close> and an error object, whose
  envelope is not consistent: the invariant comes from the factories, not from the
  constructor.
\<close>

theorem constructor_copies_without_validation:
  "success (ApiResponse_new p) = p_success p
   \<and> data (ApiResponse_new p) = p_data p
   \<and> message (ApiResponse_new p) = p_message p
   \<and> statusCode (ApiResponse_new p) = p_statusCode p
   \<and> meta (ApiResponse_new p) = p_meta p
   \<and> error (ApiResponse_new p) = p_error p
   \<and> \<not> consistent (ApiResponse_new
         \<lparr> p_success = True, p_data = (None :: 'a option), p_message = None,
           p_statusCode = None, p_meta = None,
           p_error = Some \<lparr>err_code = Some 5001, err_details = None, err_stack = None\<rparr> \<rparr>)"
  by (simp add: ApiResponse_new_def consistent_def)

text \<open>The copy at the inconsistent parameter object itself: both \<open>success\<close> and \<open>error\<close> are kept.\<close>

theorem constructor_copies_without_validation_witness:
  "success (ApiResponse_new
      \<lparr> p_success = True, p_data = (None :: int option), p_message = None,
        p_statusCode = None, p_meta = None,
        p_error = Some \<lparr>err_code = Some 5001, err_details = None, err_stack = None\<rparr> \<rparr>)
   \<and> error (ApiResponse_new
      \<lparr> p_success = True, p_data = (None :: int option), p_message = None,
        p_statusCode = None, p_meta = None,
        p_error = Some \<lparr>err_code = Some 5001, err_details = None, err_stack = None\<rparr> \<rparr>)
      = Some \<lparr>err_code = Some 5001, err_details = None, err_stack = None\<rparr>
   \<and> \<not> consistent (ApiResponse_new
      \<lparr> p_success = True, p_data = (None :: int option), p_message = None,
        p_statusCode = None, p_meta = None,
        p_error = Some \<lparr>err_code = Some 5001, err_details = None, err_stack = None\<rparr> \<rparr>)"
  using constructor_copies_without_validation [where 'a = int,
      of "\<lparr> p_success = True, p_data = (None :: int option), p_message = None,
            p_statusCode = None, p_meta = None,
            p_error = Some \<lparr>err_code = Some 5001, err_details = None, err_stack = None\<rparr> \<rparr>"]
  by simp

subsection \<open>Pagination metadata\<close>

text \<open>The metadata that \<open>paginated\<close> stores: the six computed fields, overwritten by the extra ones.\<close>

lemma paginated_meta_eq:
  "meta (ApiResponse_paginated params) =
     Some ([''page'' \<mapsto> JNumber (Finite (pg_page params)),
            ''limit'' \<mapsto> JNumber (Finite (pg_limit params)),
            ''total'' \<mapsto> JNumber (Finite (pg_total params)),
            ''totalPages'' \<mapsto> JNumber (Math_ceil_div (pg_total params) (pg_limit params)),
            ''hasNextPage'' \<mapsto> JBoolean (num_less (Finite (pg_page params))
                 (Math_ceil_div (pg_total params) (pg_limit params))),
            ''hasPreviousPage'' \<mapsto> JBoolean (pg_page params > 1)]
           ++ extraMeta params)"
  by (simp add: ApiResponse_paginated_def ApiResponse_new_def extraMeta_def Let_def)

text \<open>Rounding to the nearest integer: an integer stays, and the result is on the right side.\<close>

lemma roundHalfEven_int: "roundHalfEven (of_int m) = m"
  by (simp add: roundHalfEven_def)

lemma roundHalfEven_le: "y < of_int m \<Longrightarrow> roundHalfEven y \<le> m"
  unfolding roundHalfEven_def Let_def
  by (auto simp: floor_less_iff) (smt (verit) floor_less_iff)+

lemma roundHalfEven_ge: "of_int m + 1 / 2 < y \<Longrightarrow> m + 1 \<le> roundHalfEven y"
  unfolding roundHalfEven_def Let_def
  by auto linarith

lemma binaryExponent_le:
  assumes "0 < a" and "0 < b"
  shows "(2::rat) powi binaryExponent a b \<le> of_int a / of_int b"
proof (cases "(2::rat) powi (bitlen a - bitlen b) \<le> of_int a / of_int b")
  case True
  then show ?thesis by (simp add: binaryExponent_def)
next
  case False
  have la: "(2::rat) ^ nat (bitlen a - 1) \<le> of_int a"
    using bitlen_bounds[OF assms(1)] by (metis of_int_le_iff of_int_numeral of_int_power)
  have ub: "of_int b < (2::rat) ^ nat (bitlen b)"
    using bitlen_bounds[OF assms(2)] by (metis of_int_less_iff of_int_numeral of_int_power)
  have pa: "1 \<le> bitlen a" using assms(1) by (simp add: bitlen_alt_def)
  have pb: "0 \<le> bitlen b" by (rule bitlen_nonneg)
  have "(2::rat) powi (bitlen a - bitlen b - 1) = 2 powi (bitlen a - 1) / 2 powi (bitlen b)"
    by (simp add: power_int_diff)
  also have "\<dots> = 2 ^ nat (bitlen a - 1) / 2 ^ nat (bitlen b)"
    using pa pb by (simp add: power_int_def)
  also have "\<dots> \<le> of_int a / of_int b"
    using la ub assms by (intro frac_le) auto
  finally show ?thesis using False by (simp add: binaryExponent_def)
qed

lemma binaryExponent_le_52:
  assumes "0 < a" and "a < 2 ^ 53" and "0 < b"
  shows "binaryExponent a b \<le> 52"
proof -
  have "bitlen a \<le> 53" using assms(2) by (simp add: bitlen_le_iff_power)
  moreover have "1 \<le> bitlen b" using assms(3) by (simp add: bitlen_alt_def)
  ultimately show ?thesis by (simp add: binaryExponent_def Let_def)
qed

text \<open>
  Below \<open>2^53\<close> the rounding of the quotient does not show in its ceiling: when the
  quotient is not an integer, it is more than half a unit of the last place above the
  integer below it, and the integer above it is a double.
\<close>

lemma ceiling_divideAsDouble:
  assumes "0 \<le> a" and "a < 2 ^ 53" and "1 \<le> b"
  shows "\<lceil>divideAsDouble a b\<rceil> = \<lceil>(of_int a / of_int b :: rat)\<rceil>"
proof (cases "a = 0")
  case True
  then show ?thesis by (simp add: divideAsDouble_def)
next
  case False
  with assms have a: "0 < a" and b: "0 < b" by simp_all
  define x :: rat where "x = of_int a / of_int b"
  define e where "e = binaryExponent a b"
  define j where "j = nat (52 - e)"
  have xpos: "0 < x" using a b by (simp add: x_def)
  have e52: "e \<le> 52" unfolding e_def using a assms(2) b by (rule binaryExponent_le_52)
  have ex: "(2::rat) powi e \<le> x" unfolding e_def x_def using a b by (rule binaryExponent_le)
  have ulp: "(2::rat) powi (e - 52) = 1 / 2 ^ j"
    using e52 by (simp add: j_def power_int_def field_simps)
  have dd: "divideAsDouble a b = of_int (roundHalfEven (x * 2 ^ j)) / 2 ^ j"
    using a b xpos False
    by (simp add: divideAsDouble_def Let_def e_def[symmetric] ulp x_def[symmetric])
  define q where "q = \<lfloor>x\<rfloor>"
  show ?thesis
  proof (cases "x = of_int q")
    case True
    have "x * 2 ^ j = of_int (q * 2 ^ j)" using True by simp
    then have "roundHalfEven (x * 2 ^ j) = q * 2 ^ j" by (metis roundHalfEven_int)
    then have "divideAsDouble a b = x" using True by (simp add: dd)
    then show ?thesis by (simp add: x_def)
  next
    case False
    have ql: "of_int q < x"
      using False unfolding q_def by (metis floor_correct order_le_less of_int_floor_le)
    have qu: "x < of_int (q + 1)" unfolding q_def by linarith
    have cx: "\<lceil>x\<rceil> = q + 1" using ql qu by (simp add: ceiling_eq)
    have "a - q * b > 0"
      using ql b by (simp add: x_def field_simps) (metis of_int_less_iff of_int_mult)
    then have "1 \<le> a - q * b" by simp
    then have "(1::rat) \<le> of_int a - of_int q * of_int b"
      by (metis of_int_1 of_int_diff of_int_le_iff of_int_mult)
    then have d1: "1 / of_int b \<le> x - of_int q" using b by (simp add: x_def field_simps)
    have "of_int b * (2::rat) powi e \<le> of_int a" using ex b by (simp add: x_def field_simps)
    also have "\<dots> < 2 ^ 53"
      using assms(2) by (metis of_int_less_iff of_int_numeral of_int_power)
    finally have "of_int b * (2::rat) powi e < 2 ^ 53" .
    moreover have "(2::rat) powi e = 2 ^ 52 / 2 ^ j"
    proof -
      have "(2::rat) powi e = 2 powi (int 52 - int j)" using e52 by (simp add: j_def)
      also have "\<dots> = 2 powi (int 52) / 2 powi (int j)" by (rule power_int_diff) simp
      also have "\<dots> = 2 ^ 52 / 2 ^ j" by (simp only: power_int_of_nat)
      finally show ?thesis .
    qed
    ultimately have "of_int b * (2::rat) ^ 52 < 2 ^ 53 * 2 ^ j" by (simp add: field_simps)
    then have "of_int b < (2::rat) * 2 ^ j" by simp
    then have d2: "1 / (2 * 2 ^ j) < 1 / (of_int b :: rat)" using b by (simp add: field_simps)
    have "1 / (2 * 2 ^ j) < x - of_int q" using d1 d2 by linarith
    then have "of_int (q * 2 ^ j) + 1 / 2 < x * 2 ^ j" by (simp add: field_simps)
    then have lo: "q * 2 ^ j + 1 \<le> roundHalfEven (x * 2 ^ j)" by (rule roundHalfEven_ge)
    have "x * 2 ^ j < of_int (q + 1) * 2 ^ j"
      using qu by (intro mult_strict_right_mono) simp_all
    then have "x * 2 ^ j < of_int ((q + 1) * 2 ^ j)" by simp
    then have hi: "roundHalfEven (x * 2 ^ j) \<le> (q + 1) * 2 ^ j" by (rule roundHalfEven_le)
    have "of_int q < divideAsDouble a b"
    proof -
      have "q * 2 ^ j < roundHalfEven (x * 2 ^ j)" using lo by simp
      then have "(of_int (q * 2 ^ j) :: rat) < of_int (roundHalfEven (x * 2 ^ j))"
        by (simp only: of_int_less_iff)
      then have "of_int q * (2::rat) ^ j < of_int (roundHalfEven (x * 2 ^ j))" by simp
      then show ?thesis by (simp add: dd pos_less_divide_eq)
    qed
    moreover have "divideAsDouble a b \<le> of_int (q + 1)"
    proof -
      have "(of_int (roundHalfEven (x * 2 ^ j)) :: rat) \<le> of_int ((q + 1) * 2 ^ j)"
        using hi by (simp only: of_int_le_iff)
      then have "of_int (roundHalfEven (x * 2 ^ j)) \<le> (of_int (q + 1) :: rat) * 2 ^ j"
        by simp
      then show ?thesis by (simp add: dd pos_divide_le_eq)
    qed
    ultimately have "\<lceil>divideAsDouble a b\<rceil> = q + 1" by (simp add: ceiling_eq)
    then show ?thesis using cx by (simp add: x_def)
  qed
qed

text \<open>For a safe total that is not negative and a limit of at least 1, the exact ceiling.\<close>

lemma Math_ceil_div_safe:
  assumes "0 \<le> n" and "isSafeInteger n" and "1 \<le> limit"
  shows "Math_ceil_div n limit = Finite \<lceil>real_of_int n / real_of_int limit\<rceil>"
proof -
  have "n < 2 ^ 53" using assms(2) by (simp add: isSafeInteger_def)
  then have "\<lceil>divideAsDouble n limit\<rceil> = \<lceil>(of_int n / of_int limit :: rat)\<rceil>"
    using assms(1,3) by (intro ceiling_divideAsDouble) simp_all
  also have "\<dots> = - (- n div limit)" by (rule ceiling_divide_eq_div)
  also have "\<dots> = \<lceil>real_of_int n / real_of_int limit\<rceil>"
    by (rule ceiling_divide_eq_div [symmetric])
  finally show ?thesis using assms(3) by (simp add: Math_ceil_div_def)
qed

lemma Math_ceil_div_25_10: "Math_ceil_div 25 10 = Finite 3"
  using Math_ceil_div_safe [of 25 10] by (simp add: isSafeInteger_def)

text \<open>
  C3 fails as stated. With page 1, limit 3 and total 27021597764222984, a double above
  \<open>2^53\<close>, the quotient is rounded to a double before \<open>Math.ceil\<close>: \<open>totalPages\<close> is
  9007199254740994, while \<open>ceil(total / limit)\<close> is 9007199254740995. And with page 2,
  limit 5, total 12 and the extra metadata \<open>{totalPages: 1}\<close>, \<open>totalPages\<close> is the 1 of
  the caller, while \<open>ceil(total / limit)\<close> is 3.
\<close>

theorem paginated_derived_fields_not_for_every_call:
  "derivedFields (ApiResponse_paginated
      \<lparr> pg_data = [4, 5 :: nat], pg_message = None, pg_statusCode = None,
        pg_page = 1, pg_limit = 3, pg_total = 27021597764222984, pg_meta = None \<rparr>)
   = [Some (JNumber (Finite 9007199254740994)), Some (JBoolean True), Some (JBoolean False)]
   \<and> \<lceil>real_of_int 27021597764222984 / real_of_int 3\<rceil> = (9007199254740995 :: int)
   \<and> derivedFields (ApiResponse_paginated
      \<lparr> pg_data = [4, 5 :: nat], pg_message = None, pg_statusCode = None,
        pg_page = 2, pg_limit = 5, pg_total = 12,
        pg_meta = Some [''totalPages'' \<mapsto> JNumber (Finite 1)] \<rparr>)
   = [Some (JNumber (Finite 1)), Some (JBoolean True), Some (JBoolean True)]
   \<and> \<lceil>real_of_int 12 / real_of_int 5\<rceil> = (3 :: int)"
proof -
  have big: "Math_ceil_div 27021597764222984 3 = Finite 9007199254740994"
    by code_simp
  have small: "Math_ceil_div 12 5 = Finite 3"
    using Math_ceil_div_safe [of 12 5] by (simp add: isSafeInteger_def)
  show ?thesis
    by (simp add: derivedFields_def metaField_def derivedKeys_def paginated_meta_eq
        extraMeta_def orDefault_def big small)
qed

text \<open>
  C3, amended. For a call of \<open>paginated\<close> whose page, limit and total are safe integers
  (of magnitude at most \<open>2^53 - 1\<close>) with page at least 1, limit at least 1 and total at
  least 0, and whose extra metadata has none of the three derived keys (in particular a
  call without extra metadata), the metadata has \<open>totalPages = ceil(total / limit)\<close>,
  \<open>hasNextPage = (page < totalPages)\<close> and \<open>hasPreviousPage = (page > 1)\<close>. The three
  values are given by page, limit and total alone, whatever the data, the message and the
  status code are.
\<close>

theorem paginated_derived_fields:
  assumes "isSafeInteger (pg_page params)" and "isSafeInteger (pg_limit params)"
    and "isSafeInteger (pg_total params)"
    and "1 \<le> pg_page params" and "1 \<le> pg_limit params" and "0 \<le> pg_total params"
    and "\<forall>k \<in> set derivedKeys. extraMeta params k = None"
  shows "derivedFields (ApiResponse_paginated params) =
           [Some (JNumber (Finite
              \<lceil>real_of_int (pg_total params) / real_of_int (pg_limit params)\<rceil>)),
            Some (JBoolean (pg_page params
              < \<lceil>real_of_int (pg_total params) / real_of_int (pg_limit params)\<rceil>)),
            Some (JBoolean (pg_page params > 1))]"
proof -
  have "Math_ceil_div (pg_total params) (pg_limit params)
          = Finite \<lceil>real_of_int (pg_total params) / real_of_int (pg_limit params)\<rceil>"
    using assms(3,5,6) by (intro Math_ceil_div_safe)
  then show ?thesis
    using assms(7)
    by (simp add: derivedFields_def metaField_def derivedKeys_def paginated_meta_eq map_add_def)
qed

text \<open>Page 1 with limit 10 and total 25: three pages, a next page, no previous page.\<close>

theorem paginated_derived_fields_witness:
  "derivedFields (ApiResponse_paginated
      \<lparr> pg_data = [4, 5 :: nat], pg_message = None, pg_statusCode = None,
        pg_page = 1, pg_limit = 10, pg_total = 25, pg_meta = None \<rparr>)
   = [Some (JNumber (Finite 3)), Some (JBoolean True), Some (JBoolean False)]"
  using paginated_derived_fields [of
      "\<lparr> pg_data = [4, 5 :: nat], pg_message = None, pg_statusCode = None,
         pg_page = 1, pg_limit = 10, pg_total = 25, pg_meta = None \<rparr>"]
  by (simp add: extraMeta_def orDefault_def derivedKeys_def isSafeInteger_def)

text \<open>
  C1 fails as stated. With page 1, limit 10, total 25 the computed fields are 3, true and
  false; when the extra metadata gives 99, false and true under the same keys, the
  envelope carries the values of the caller.
\<close>

theorem paginated_computed_fields_overridden:
  "derivedFields (ApiResponse_paginated
      \<lparr> pg_data = [4, 5 :: nat], pg_message = None, pg_statusCode = None,
        pg_page = 1, pg_limit = 10, pg_total = 25,
        pg_meta = Some [''totalPages'' \<mapsto> JNumber (Finite 99),
                        ''hasNextPage'' \<mapsto> JBoolean False,
                        ''hasPreviousPage'' \<mapsto> JBoolean True] \<rparr>)
   = [Some (JNumber (Finite 99)), Some (JBoolean False), Some (JBoolean True)]
   \<and> Math_ceil_div 25 10 = Finite 3
   \<and> num_less (Finite 1) (Math_ceil_div 25 10) = True
   \<and> ((1::int) > 1) = False"
  by (simp add: derivedFields_def metaField_def derivedKeys_def paginated_meta_eq extraMeta_def
      orDefault_def Math_ceil_div_25_10)

text \<open>
  C1, amended. The extra metadata is spread after the computed fields, so a key of the
  extra metadata takes precedence over the computed field of the same name: the envelope
  carries the caller's value for every key that the extra metadata has, and the computed
  value of \<open>totalPages\<close>, \<open>hasNextPage\<close> and \<open>hasPreviousPage\<close> for each of these keys
  that the extra metadata does not have.
\<close>

theorem paginated_extra_meta_wins:
  "(\<forall>k v. extraMeta params k = Some v \<longrightarrow> metaField (ApiResponse_paginated params) k = Some v)
   \<and> (extraMeta params ''totalPages'' = None \<longrightarrow>
        metaField (ApiResponse_paginated params) ''totalPages''
          = Some (JNumber (Math_ceil_div (pg_total params) (pg_limit params))))
   \<and> (extraMeta params ''hasNextPage'' = None \<longrightarrow>
        metaField (ApiResponse_paginated params) ''hasNextPage''
          = Some (JBoolean (num_less (Finite (pg_page params))
                 (Math_ceil_div (pg_total params) (pg_limit params)))))
   \<and> (extraMeta params ''hasPreviousPage'' = None \<longrightarrow>
        metaField (ApiResponse_paginated params) ''hasPreviousPage''
          = Some (JBoolean (pg_page params > 1)))"
  by (simp add: metaField_def paginated_meta_eq map_add_def)

text \<open>
  Page 2 of 25 items by 10, with \<open>totalPages: 99\<close> as extra metadata: the caller's 99
  is kept, and the two flags, which the caller did not give, are the computed ones.
\<close>

theorem paginated_extra_meta_wins_witness:
  "metaField (ApiResponse_paginated
      \<lparr> pg_data = [4, 5 :: nat], pg_message = None, pg_statusCode = None,
        pg_page = 2, pg_limit = 10, pg_total = 25,
        pg_meta = Some [''totalPages'' \<mapsto> JNumber (Finite 99)] \<rparr>) ''totalPages''
     = Some (JNumber (Finite 99))
   \<and> metaField (ApiResponse_paginated
      \<lparr> pg_data = [4, 5 :: nat], pg_message = None, pg_statusCode = None,
        pg_page = 2, pg_limit = 10, pg_total = 25,
        pg_meta = Some [''totalPages'' \<mapsto> JNumber (Finite 99)] \<rparr>) ''hasNextPage''
     = Some (JBoolean True)
   \<and> metaField (ApiResponse_paginated
      \<lparr> pg_data = [4, 5 :: nat], pg_message = None, pg_statusCode = None,
        pg_page = 2, pg_limit = 10, pg_total = 25,
        pg_meta = Some [''totalPages'' \<mapsto> JNumber (Finite 99)] \<rparr>) ''hasPreviousPage''
     = Some (JBoolean True)"
  using paginated_extra_meta_wins [of
      "\<lparr> pg_data = [4, 5 :: nat], pg_message = None, pg_statusCode = None,
         pg_page = 2, pg_limit = 10, pg_total = 25,
         pg_meta = Some [''totalPages'' \<mapsto> JNumber (Finite 99)] \<rparr>"]
  by (simp add: extraMeta_def orDefault_def Math_ceil_div_25_10)

subsection \<open>Serialization\<close>

lemma toJSON_apply:
  "toJSON r k =
     (if k = ''error'' then map_option FError (error r)
      else if k = ''meta'' then map_option FMeta (meta r)
      else if k = ''statusCode'' then map_option FNumber (statusCode r)
      else if k = ''message'' then map_option FString (message r)
      else if k = ''data'' then map_option FData (data r)
      else if k = ''success'' then Some (FBoolean (success r))
      else None)"
  by (simp add: toJSON_def setIfDefined_def Let_def split: option.splits)

text \<open>Building an envelope from its own plain object gives the envelope back.\<close>

lemma new_asParams_toJSON: "ApiResponse_new (asParams (toJSON r)) = r"
  by (cases r) (simp add: ApiResponse_new_def asParams_def toJSON_apply split: option.splits)

text \<open>
  C8. The plain object of an envelope has the key \<open>success\<close>, and each of \<open>data\<close>,
  \<open>message\<close>, \<open>statusCode\<close>, \<open>meta\<close>, \<open>error\<close> exactly when the field is there, with
  the field's value; no key holds \<open>undefined\<close>. Serializing the envelope built from the
  plain object gives the same plain object again. The plain object of \<open>success()\<close> has
  the keys \<open>success\<close>, \<open>message\<close> and \<open>statusCode\<close> only.
\<close>

theorem toJSON_omits_absent_fields:
  "toJSON r ''success'' = Some (FBoolean (success r))
   \<and> toJSON r ''data'' = map_option FData (data r)
   \<and> toJSON r ''message'' = map_option FString (message r)
   \<and> toJSON r ''statusCode'' = map_option FNumber (statusCode r)
   \<and> toJSON r ''meta'' = map_option FMeta (meta r)
   \<and> toJSON r ''error'' = map_option FError (error r)
   \<and> (''data'' \<in> dom (toJSON r) \<longleftrightarrow> data r \<noteq> None)
   \<and> (''message'' \<in> dom (toJSON r) \<longleftrightarrow> message r \<noteq> None)
   \<and> (''statusCode'' \<in> dom (toJSON r) \<longleftrightarrow> statusCode r \<noteq> None)
   \<and> (''meta'' \<in> dom (toJSON r) \<longleftrightarrow> meta r \<noteq> None)
   \<and> (''error'' \<in> dom (toJSON r) \<longleftrightarrow> error r \<noteq> None)
   \<and> FUndefined \<notin> ran (toJSON r)
   \<and> toJSON (ApiResponse_new (asParams (toJSON r))) = toJSON r
   \<and> dom (toJSON (ApiResponse_success None :: 'a ApiResponse))
       = {''success'', ''message'', ''statusCode''}"
  apply (intro conjI)
  apply (simp_all add: toJSON_apply new_asParams_toJSON dom_def ran_def)
  apply (auto simp: ApiResponse_success_def ApiResponse_new_def orDefault_def
      emptySuccessParams_def split: if_splits)
  done

section \<open>Localized messages\<close>

lemma returnIfTruthy_isHit:
  "returnIfTruthy m rest = (if isHit m then the m else rest)"
  by (simp add: returnIfTruthy_def isHit_def split: option.splits)

text \<open>\<open>getMessage\<close> written over the target locale and the sentinel of that locale.\<close>

lemma getMessage_unfold:
  "getMessage p code loc =
     returnIfTruthy (lookupMessage (customMessages p) (targetLocaleOf p loc) code)
       (returnIfTruthy (lookupMessage builtInMessages (targetLocaleOf p loc) code)
          (if targetLocaleOf p loc \<noteq> fallbackLocale p
           then returnIfTruthy (lookupMessage (customMessages p) (fallbackLocale p) code)
                  (returnIfTruthy (lookupMessage builtInMessages (fallbackLocale p) code)
                     (unknownSentinel (targetLocaleOf p loc)))
           else unknownSentinel (targetLocaleOf p loc)))"
  by (simp add: getMessage_def targetLocaleOf_def orDefault_def unknownSentinel_def
      DEFAULT_UNKNOWN_MESSAGE_def Let_def split: option.splits)

text \<open>
  C4 fails as stated. With default locale \<open>vi\<close> and fallback \<open>en\<close>, after the override
  \<open>{2001: ""}\<close> is registered for \<open>vi\<close>, the override table of the requested locale has
  an entry for 2001, which is the first hit of the stated order; \<open>getMessage\<close> passes it
  over, because the empty string is falsy, and returns the built-in \<open>vi\<close> text.
\<close>

theorem getMessage_skips_empty_override:
  "resolve_spec (registerMessages (BusinessMessageProvider_new
         (Some \<lparr>cfg_locale = Some ''vi'', cfg_fallbackLocale = Some ''en'',
                 cfg_customMessages = None\<rparr>)) ''vi'' [2001 \<mapsto> []]) 2001 None = []
   \<and> Some (getMessage (registerMessages (BusinessMessageProvider_new
         (Some \<lparr>cfg_locale = Some ''vi'', cfg_fallbackLocale = Some ''en'',
                 cfg_customMessages = None\<rparr>)) ''vi'' [2001 \<mapsto> []]) 2001 None)
       = viMessages 2001
   \<and> getMessage (registerMessages (BusinessMessageProvider_new
         (Some \<lparr>cfg_locale = Some ''vi'', cfg_fallbackLocale = Some ''en'',
                 cfg_customMessages = None\<rparr>)) ''vi'' [2001 \<mapsto> []]) 2001 None
     \<noteq> resolve_spec (registerMessages (BusinessMessageProvider_new
         (Some \<lparr>cfg_locale = Some ''vi'', cfg_fallbackLocale = Some ''en'',
                 cfg_customMessages = None\<rparr>)) ''vi'' [2001 \<mapsto> []]) 2001 None"
  by (simp add: resolve_spec_def requestedSteps_def fallbackSteps_def targetLocaleOf_def
      orDefault_def registerMessages_def BusinessMessageProvider_new_def
      lookupMessage_def builtInMessages_def viMessages_def getMessage_def returnIfTruthy_def)

text \<open>
  C4, amended. For every provider, code and requested locale that is not the name of a
  property every object inherits, \<open>getMessage\<close> returns the first hit in this order,
  where a hit is an entry that is a string and not empty (an entry holding the empty
  string is passed over like a missing one): the overrides of the requested locale, its
  built-in table, then, only when the fallback locale is another locale, the overrides and
  the built-in table of the fallback locale; without a hit it returns the unknown sentinel
  of the requested locale, and the one of \<open>'en'\<close> for a locale that has no sentinel. When
  none of the tables consulted holds the empty string for the code, this is the first
  entry present, as the specification words it.
\<close>

theorem getMessage_resolution_order:
  assumes "targetLocaleOf p loc \<notin> set inheritedPropertyNames"
  shows "getMessage p code loc = resolve_first_nonempty p code loc
    \<and> (Some [] \<notin> set (requestedSteps p code (targetLocaleOf p loc)
                         @ fallbackSteps p code (targetLocaleOf p loc))
         \<longrightarrow> getMessage p code loc = resolve_spec p code loc)"
proof (intro conjI impI)
  show first: "getMessage p code loc = resolve_first_nonempty p code loc"
    by (simp add: getMessage_unfold resolve_first_nonempty_def requestedSteps_def
        fallbackSteps_def returnIfTruthy_isHit Let_def isHit_def split: option.splits)
  assume "Some [] \<notin> set (requestedSteps p code (targetLocaleOf p loc)
                           @ fallbackSteps p code (targetLocaleOf p loc))"
  then have "List.find (\<lambda>m. m \<noteq> None) (requestedSteps p code (targetLocaleOf p loc)
                           @ fallbackSteps p code (targetLocaleOf p loc))
           = List.find isHit (requestedSteps p code (targetLocaleOf p loc)
                           @ fallbackSteps p code (targetLocaleOf p loc))"
    by (intro find_cong) (auto simp: isHit_def split: option.splits)
  then have "resolve_spec p code loc = resolve_first_nonempty p code loc"
    by (simp add: resolve_spec_def resolve_first_nonempty_def)
  then show "getMessage p code loc = resolve_spec p code loc"
    using first by simp
qed

text \<open>
  With default locale \<open>vi\<close> and fallback \<open>en\<close>, code 2001 resolves to the built-in \<open>vi\<close>
  text, which is not the \<open>en\<close> text, and the unknown code 9999 to the \<open>vi\<close> sentinel; a
  locale without tables falls back to the \<open>en\<close> text, and without any entry to the \<open>en\<close>
  sentinel.
\<close>

theorem getMessage_resolution_order_witness:
  "Some (getMessage (BusinessMessageProvider_new
         (Some \<lparr>cfg_locale = Some ''vi'', cfg_fallbackLocale = Some ''en'',
                 cfg_customMessages = None\<rparr>)) 2001 None) = viMessages 2001
   \<and> getMessage (BusinessMessageProvider_new
         (Some \<lparr>cfg_locale = Some ''vi'', cfg_fallbackLocale = Some ''en'',
                 cfg_customMessages = None\<rparr>)) 2001 None
     = resolve_spec (BusinessMessageProvider_new
         (Some \<lparr>cfg_locale = Some ''vi'', cfg_fallbackLocale = Some ''en'',
                 cfg_customMessages = None\<rparr>)) 2001 None
   \<and> viMessages 2001 \<noteq> enMessages 2001
   \<and> Some (getMessage (BusinessMessageProvider_new
         (Some \<lparr>cfg_locale = Some ''vi'', cfg_fallbackLocale = Some ''en'',
                 cfg_customMessages = None\<rparr>)) 9999 None) = DEFAULT_UNKNOWN_MESSAGE ''vi''
   \<and> getMessage (BusinessMessageProvider_new
         (Some \<lparr>cfg_locale = Some ''fr'', cfg_fallbackLocale = Some ''en'',
                 cfg_customMessages = None\<rparr>)) 2001 None = ''User not found''
   \<and> getMessage (BusinessMessageProvider_new
         (Some \<lparr>cfg_locale = Some ''fr'', cfg_fallbackLocale = Some ''vi'',
                 cfg_customMessages = None\<rparr>)) 9999 None = ''Unknown error''"
  using getMessage_resolution_order [of
      "BusinessMessageProvider_new
         (Some \<lparr>cfg_locale = Some ''vi'', cfg_fallbackLocale = Some ''en'',
                 cfg_customMessages = None\<rparr>)" None 2001]
  by (simp add: inheritedPropertyNames_def targetLocaleOf_def orDefault_def
      resolve_spec_def resolve_first_nonempty_def requestedSteps_def fallbackSteps_def isHit_def
      getMessage_def BusinessMessageProvider_new_def lookupMessage_def
      returnIfTruthy_def builtInMessages_def viMessages_def enMessages_def
      DEFAULT_UNKNOWN_MESSAGE_def)

text \<open>
  C7 fails as stated. After an override with the empty string is registered for code
  9999 in \<open>vi\<close>, \<open>hasMessage\<close> is true, while neither step 1 nor step 2 of \<open>getMessage\<close>
  succeeds: the empty string is skipped, and the result is the unknown sentinel.
\<close>

theorem hasMessage_counts_empty_entry:
  "hasMessage (registerMessages (BusinessMessageProvider_new None) ''vi'' [9999 \<mapsto> []])
       9999 (Some ''vi'')
   \<and> \<not> firstOrSecondStepSucceeds
         (registerMessages (BusinessMessageProvider_new None) ''vi'' [9999 \<mapsto> []])
         9999 (Some ''vi'')
   \<and> Some (getMessage (registerMessages (BusinessMessageProvider_new None) ''vi'' [9999 \<mapsto> []])
        9999 (Some ''vi'')) = DEFAULT_UNKNOWN_MESSAGE ''vi''"
  by (simp add: hasMessage_def firstOrSecondStepSucceeds_def requestedSteps_def targetLocaleOf_def
      orDefault_def isHit_def registerMessages_def BusinessMessageProvider_new_def
      lookupMessage_def builtInMessages_def viMessages_def enMessages_def getMessage_def
      returnIfTruthy_def DEFAULT_UNKNOWN_MESSAGE_def)

text \<open>
  C7, amended. \<open>hasMessage\<close> is true exactly when the overrides or the built-in table of
  the requested locale have an entry for the code, the empty string included; the
  fallback locale plays no part. It is true whenever step 1 or step 2 of \<open>getMessage\<close>
  succeeds (\<open>getMessage\<close> then returns a message of these two tables), and the two
  agree when neither table holds the empty string for the code.
\<close>

theorem hasMessage_entry_exists:
  "(hasMessage p code loc \<longleftrightarrow> hasEntry p code loc)
   \<and> hasMessage (p\<lparr>fallbackLocale := fb\<rparr>) code loc = hasMessage p code loc
   \<and> (firstOrSecondStepSucceeds p code loc \<longrightarrow> hasMessage p code loc)
   \<and> (firstOrSecondStepSucceeds p code loc \<longrightarrow>
        Some (getMessage p code loc) \<in> set (requestedSteps p code (targetLocaleOf p loc)))
   \<and> (Some [] \<notin> set (requestedSteps p code (targetLocaleOf p loc)) \<longrightarrow>
        (hasMessage p code loc \<longleftrightarrow> firstOrSecondStepSucceeds p code loc))"
proof (intro conjI impI)
  assume "firstOrSecondStepSucceeds p code loc"
  then show "Some (getMessage p code loc) \<in> set (requestedSteps p code (targetLocaleOf p loc))"
    by (auto simp: getMessage_unfold returnIfTruthy_isHit firstOrSecondStepSucceeds_def
        requestedSteps_def isHit_def split: option.splits)
qed (auto simp: hasMessage_def hasEntry_def firstOrSecondStepSucceeds_def requestedSteps_def
      targetLocaleOf_def orDefault_def isHit_def split: option.splits)

text \<open>Code 2001 in \<open>vi\<close> on the default provider: step 2 succeeds and \<open>hasMessage\<close> is true.\<close>

theorem hasMessage_entry_exists_witness:
  "firstOrSecondStepSucceeds (BusinessMessageProvider_new None) 2001 (Some ''vi'')
   \<and> Some [] \<notin> set (requestedSteps (BusinessMessageProvider_new None) 2001
                      (targetLocaleOf (BusinessMessageProvider_new None) (Some ''vi'')))
   \<and> hasMessage (BusinessMessageProvider_new None) 2001 (Some ''vi'')
   \<and> hasEntry (BusinessMessageProvider_new None) 2001 (Some ''vi'')
   \<and> Some (getMessage (BusinessMessageProvider_new None) 2001 (Some ''vi'')) = viMessages 2001"
  using hasMessage_entry_exists [of "BusinessMessageProvider_new None" 2001 "Some ''vi''" "''en''"]
  by (auto simp: firstOrSecondStepSucceeds_def requestedSteps_def targetLocaleOf_def
      orDefault_def isHit_def BusinessMessageProvider_new_def
      lookupMessage_def builtInMessages_def viMessages_def)

subsection \<open>Registering overrides\<close>

lemma lookup_register_other:
  "l' \<noteq> l \<Longrightarrow> lookupMessage (customMessages (registerMessages p l m)) l' code
      = lookupMessage (customMessages p) l' code"
  by (simp add: registerMessages_def lookupMessage_def Let_def)

lemma lookup_register_same:
  "lookupMessage (customMessages (registerMessages p l m)) l code
      = (case m code of Some v \<Rightarrow> Some v | None \<Rightarrow> lookupMessage (customMessages p) l code)"
  by (simp add: registerMessages_def lookupMessage_def Let_def map_add_def split: option.splits)

lemma register_locales:
  "fallbackLocale (registerMessages p l m) = fallbackLocale p"
  "currentLocale (registerMessages p l m) = currentLocale p"
  by (simp_all add: registerMessages_def Let_def)

lemma target_register:
  "targetLocaleOf (registerMessages p l m) loc = targetLocaleOf p loc"
  by (simp add: targetLocaleOf_def register_locales)

text \<open>
  C9 fails as stated. On the default provider, whose fallback locale is \<open>en\<close>, code 9999
  in \<open>vi\<close> resolves to the unknown sentinel; after the override \<open>{9999: "X"}\<close> is
  registered for \<open>en\<close>, the same code in \<open>vi\<close> resolves to \<open>"X"\<close>, through the fallback
  step.
\<close>

theorem registerMessages_changes_other_locale:
  "Some (getMessage (BusinessMessageProvider_new None) 9999 (Some ''vi''))
     = DEFAULT_UNKNOWN_MESSAGE ''vi''
   \<and> getMessage (registerMessages (BusinessMessageProvider_new None) ''en'' [9999 \<mapsto> ''X''])
        9999 (Some ''vi'') = ''X''
   \<and> getMessage (BusinessMessageProvider_new None) 9999 (Some ''vi'')
     \<noteq> getMessage (registerMessages (BusinessMessageProvider_new None) ''en'' [9999 \<mapsto> ''X''])
        9999 (Some ''vi'')"
  by (simp add: registerMessages_def BusinessMessageProvider_new_def
      lookupMessage_def builtInMessages_def viMessages_def enMessages_def getMessage_def
      returnIfTruthy_def DEFAULT_UNKNOWN_MESSAGE_def)

text \<open>
  C9, amended. \<open>registerMessages(locale, map)\<close> merges the new entries into the
  overrides of that locale, the new entry winning per code and every other entry kept,
  and leaves the overrides of every other locale as they were. A code registered with a
  text that is not empty resolves to that text in that locale. Resolution in another
  locale is unchanged when the registered locale is not the fallback locale, or when the
  other locale resolves the code by its own step 1 or 2.
\<close>

theorem registerMessages_merges_and_frames:
  "lookupMessage (customMessages (registerMessages p l m)) l code
      = (case m code of Some v \<Rightarrow> Some v | None \<Rightarrow> lookupMessage (customMessages p) l code)
   \<and> (\<forall>l'. l' \<noteq> l \<longrightarrow> customMessages (registerMessages p l m) l' = customMessages p l')
   \<and> (\<forall>v. m code = Some v \<and> v \<noteq> [] \<longrightarrow> getMessage (registerMessages p l m) code (Some l) = v)
   \<and> (targetLocaleOf p loc \<noteq> l \<and> (fallbackLocale p \<noteq> l \<or> firstOrSecondStepSucceeds p code loc)
        \<longrightarrow> getMessage (registerMessages p l m) code loc = getMessage p code loc)"
proof (intro conjI allI impI)
  show "lookupMessage (customMessages (registerMessages p l m)) l code
      = (case m code of Some v \<Rightarrow> Some v | None \<Rightarrow> lookupMessage (customMessages p) l code)"
    by (rule lookup_register_same)
next
  fix l' assume "l' \<noteq> l"
  then show "customMessages (registerMessages p l m) l' = customMessages p l'"
    by (simp add: registerMessages_def Let_def)
next
  fix v assume "m code = Some v \<and> v \<noteq> []"
  then show "getMessage (registerMessages p l m) code (Some l) = v"
    by (simp add: getMessage_def lookup_register_same returnIfTruthy_def)
next
  assume a: "targetLocaleOf p loc \<noteq> l
             \<and> (fallbackLocale p \<noteq> l \<or> firstOrSecondStepSucceeds p code loc)"
  let ?t = "targetLocaleOf p loc"
  have own: "lookupMessage (customMessages (registerMessages p l m)) ?t code
      = lookupMessage (customMessages p) ?t code"
    using a by (simp add: lookup_register_other)
  show "getMessage (registerMessages p l m) code loc = getMessage p code loc"
  proof (cases "fallbackLocale p = l")
    case False
    then have "lookupMessage (customMessages (registerMessages p l m)) (fallbackLocale p) code
      = lookupMessage (customMessages p) (fallbackLocale p) code"
      by (simp add: lookup_register_other)
    then show ?thesis
      using own by (simp add: getMessage_unfold register_locales target_register)
  next
    case True
    with a have "firstOrSecondStepSucceeds p code loc" by simp
    then have "isHit (lookupMessage (customMessages p) ?t code)
        \<or> isHit (lookupMessage builtInMessages ?t code)"
      by (simp add: firstOrSecondStepSucceeds_def requestedSteps_def)
    then show ?thesis
      using own
      by (auto simp: getMessage_unfold register_locales target_register returnIfTruthy_isHit)
  qed
qed

text \<open>
  The example of the specification: with default locale \<open>vi\<close> and fallback \<open>en\<close>, after
  \<open>{2001: "X"}\<close> is registered for \<open>vi\<close>, code 2001 resolves to \<open>"X"\<close> in \<open>vi\<close> and to
  the same text as before in \<open>en\<close>.
\<close>

theorem registerMessages_merges_and_frames_witness:
  "getMessage (registerMessages (BusinessMessageProvider_new
       (Some \<lparr>cfg_locale = Some ''vi'', cfg_fallbackLocale = Some ''en'',
               cfg_customMessages = None\<rparr>))
       ''vi'' [2001 \<mapsto> ''X'']) 2001 (Some ''vi'') = ''X''
   \<and> getMessage (registerMessages (BusinessMessageProvider_new
       (Some \<lparr>cfg_locale = Some ''vi'', cfg_fallbackLocale = Some ''en'',
               cfg_customMessages = None\<rparr>))
       ''vi'' [2001 \<mapsto> ''X'']) 2001 (Some ''en'')
     = getMessage (BusinessMessageProvider_new
       (Some \<lparr>cfg_locale = Some ''vi'', cfg_fallbackLocale = Some ''en'',
               cfg_customMessages = None\<rparr>))
        2001 (Some ''en'')"
  using registerMessages_merges_and_frames [of
       "BusinessMessageProvider_new
         (Some \<lparr>cfg_locale = Some ''vi'', cfg_fallbackLocale = Some ''en'',
                 cfg_customMessages = None\<rparr>)"
       "''vi''" "[2001 \<mapsto> ''X'']" 2001 "Some ''en''"]
  by (simp add: targetLocaleOf_def orDefault_def BusinessMessageProvider_new_def)

section \<open>Pagination of a request\<close>

text \<open>
  The two clamps do their work on every number: the result is at least 1, and at most a
  maximum that is itself at least 1. Only \<open>NaN\<close> passes through both.
\<close>

lemma clamp_of_number:
  assumes "x \<noteq> NaN"
  shows "num_le (Finite 1) (Math_max 1 x)"
    and "1 \<le> m \<Longrightarrow> num_le (Finite 1) (Math_min m (Math_max 1 x))"
    and "num_le (Math_min m (Math_max 1 x)) (Finite m)"
  using assms by (cases x; simp)+

lemma clamp_of_NaN:
  "Math_max 1 NaN = NaN" "Math_min m (Math_max 1 NaN) = NaN"
  by simp_all

text \<open>A decimal digit is neither white space nor a sign.\<close>

lemma isDigit_plain:
  "isDigit c \<Longrightarrow> \<not> isWhiteSpace c \<and> c \<noteq> CHR ''-'' \<and> c \<noteq> CHR ''+''"
  by (auto simp: isDigit_def isWhiteSpace_def)

lemma parseInt_digits:
  assumes "ds \<noteq> []" and "\<forall>c \<in> set ds. isDigit c"
  shows "parseInt ds = Finite (digitsValue ds)"
    and "parseInt (CHR ''-'' # ds) = Finite (- digitsValue ds)"
proof -
  have tw: "takeWhile isDigit ds = ds"
    using assms(2) by (simp add: takeWhile_eq_all_conv)
  have hd: "isDigit (hd ds)"
    using assms by (cases ds) auto
  have dw: "dropWhile isWhiteSpace ds = ds"
    using isDigit_plain[OF hd] assms(1) by (cases ds) auto
  have u: "(case ds of [] \<Rightarrow> ds | c # r \<Rightarrow> if c = CHR ''-'' \<or> c = CHR ''+'' then r else ds) = ds"
    using isDigit_plain[OF hd] assms(1) by (cases ds) auto
  have sg: "(case ds of [] \<Rightarrow> 1 | c # _ \<Rightarrow> if c = CHR ''-'' then - 1 else (1::int)) = 1"
    using isDigit_plain[OF hd] assms(1) by (cases ds) auto
  show "parseInt ds = Finite (digitsValue ds)"
    unfolding parseInt_def Let_def dw u sg tw using assms(1) by simp
  have ws: "dropWhile isWhiteSpace (CHR ''-'' # ds) = CHR ''-'' # ds"
    by (simp add: isWhiteSpace_def)
  show "parseInt (CHR ''-'' # ds) = Finite (- digitsValue ds)"
    unfolding parseInt_def Let_def ws using assms(1) by (simp add: tw)
qed

lemma digit_chars:
  "\<forall>n \<in> set [0..<10]. isDigit (char_of (48 + n)) \<and> digitValue (char_of (48 + n)) = int n"
  by code_simp

lemma digit_char:
  "n < 10 \<Longrightarrow> isDigit (char_of (48 + n)) \<and> digitValue (char_of (48 + n)) = int n"
  using digit_chars by simp

text \<open>The decimal digits of a natural number are digits, at least one, and they denote it.\<close>

lemma natDigits_props:
  "natDigits n \<noteq> [] \<and> (\<forall>c \<in> set (natDigits n). isDigit c) \<and> digitsValue (natDigits n) = int n"
proof (induction n rule: natDigits.induct)
  case (1 n)
  show ?case
  proof (cases "n < 10")
    case True
    then have "natDigits n = [char_of (48 + n)]"
      by (subst natDigits.simps) simp
    then show ?thesis
      using digit_char[OF True] by (simp add: digitsValue_def)
  next
    case False
    have m: "n mod 10 < 10" by simp
    from False 1 have IH: "natDigits (n div 10) \<noteq> []"
      "\<forall>c \<in> set (natDigits (n div 10)). isDigit c"
      "digitsValue (natDigits (n div 10)) = int (n div 10)"
      by auto
    have eq: "natDigits n = natDigits (n div 10) @ [char_of (48 + n mod 10)]"
      using False by (subst natDigits.simps) simp
    have "digitsValue (natDigits n) = 10 * digitsValue (natDigits (n div 10)) + int (n mod 10)"
      using digit_char[OF m] by (simp add: eq digitsValue_def)
    also have "\<dots> = int n"
      using IH(3) by (simp add: zdiv_int zmod_int)
    finally show ?thesis
      using IH digit_char[OF m] by (simp add: eq)
  qed
qed

text \<open>\<open>parseInt(String(n), 10)\<close> is \<open>n\<close>: a default always parses.\<close>

lemma parseInt_String_of: "parseInt (String_of n) = Finite n"
  using natDigits_props[of "nat n"] natDigits_props[of "nat (- n)"]
  by (cases "n < 0") (simp_all add: String_of_def parseInt_digits)

lemma parseInt_paramOr:
  "numericParam v \<Longrightarrow> parseInt (paramOr v d) \<noteq> NaN"
  by (auto simp: numericParam_def paramOr_def parseInt_String_of split: option.splits)

text \<open>
  What the clamps achieve: when both parameters are absent, empty or numeric, and the
  maximum in force is at least 1, the page is at least 1 and the limit lies between 1 and
  the maximum.
\<close>

lemma parsePagination_clamps_numeric:
  assumes "numericParam (searchParams ''page'')" and "numericParam (searchParams ''limit'')"
    and "1 \<le> maxLimitOf options"
  shows "num_le (Finite 1) (pagination_page (parsePagination searchParams options))
         \<and> num_le (Finite 1) (pagination_limit (parsePagination searchParams options))
         \<and> num_le (pagination_limit (parsePagination searchParams options))
              (Finite (maxLimitOf options))"
  using assms
  by (simp add: parsePagination_def maxLimitOf_def Let_def clamp_of_number parseInt_paramOr)

text \<open>
  C6, on the code. For the request \<open>?page=abc\<close> without options, \<open>parseInt\<close> gives
  \<open>NaN\<close>, \<open>Math.max(1, NaN)\<close> is \<open>NaN\<close>, and the page that is returned is \<open>NaN\<close>, which
  is not at least 1; \<open>?limit=abc\<close> gives the limit \<open>NaN\<close> in the same way. The two
  examples of the claim hold: \<open>page=-5&limit=10\<close> gives page 1 and limit 10, and
  \<open>page=1&limit=500\<close> gives page 1 and limit 100.
\<close>

theorem parsePagination_non_numeric_is_NaN:
  "parsePagination [''page'' \<mapsto> ''abc''] None
     = \<lparr>pagination_page = NaN, pagination_limit = Finite 10\<rparr>
   \<and> num_le (Finite 1) (pagination_page (parsePagination [''page'' \<mapsto> ''abc''] None)) = False
   \<and> parsePagination [''limit'' \<mapsto> ''abc''] None
     = \<lparr>pagination_page = Finite 1, pagination_limit = NaN\<rparr>
   \<and> parsePagination [''page'' \<mapsto> ''-5'', ''limit'' \<mapsto> ''10''] None
     = \<lparr>pagination_page = Finite 1, pagination_limit = Finite 10\<rparr>
   \<and> parsePagination [''page'' \<mapsto> ''1'', ''limit'' \<mapsto> ''500''] None
     = \<lparr>pagination_page = Finite 1, pagination_limit = Finite 100\<rparr>"
  by code_simp

end
